theory Spec2Isabelle
  imports Complex_Main "HOL-Library.Log_Nat"
begin

section \<open>The rate limiter (api/middleware/rate\_limiting.py)\<close>

subsection \<open>The sorted set behind one rate-limit key\<close>

text \<open>
  \<^verbatim>\<open>_check_rate_limit\<close> keeps, under each rate-limit key, a Redis sorted set. The
  only members it ever adds are \<^verbatim>\<open>str(current)\<close> with score \<^verbatim>\<open>current\<close>, where
  \<^verbatim>\<open>current = int(time.time())\<close>. Python's \<^verbatim>\<open>str\<close> is injective on integers, so a
  member is modelled by the integer it prints. A sorted set is a list of (member, score)
  pairs with pairwise different members; \<^verbatim>\<open>ZADD\<close> of a member that is already there
  only replaces its score.

  The key also carries the deadline set by \<^verbatim>\<open>EXPIRE\<close>: once the deadline is reached the
  key is gone, which \<open>live\<close> makes explicit for a reader at time \<open>now\<close>.
\<close>

type_synonym zset = "(int \<times> int) list"

record zkey =
  members :: zset
  expires_at :: "int option"

definition no_key :: zkey where
  "no_key = \<lparr>members = [], expires_at = None\<rparr>"

definition live :: "int \<Rightarrow> zkey \<Rightarrow> zkey" where
  "live now k =
     (case expires_at k of
        None \<Rightarrow> k
      | Some d \<Rightarrow> if d \<le> now then no_key else k)"

definition zremrangebyscore :: "int \<Rightarrow> int \<Rightarrow> zset \<Rightarrow> zset" where
  "zremrangebyscore lo hi z = filter (\<lambda>(m, s). \<not> (lo \<le> s \<and> s \<le> hi)) z"

definition zcard :: "zset \<Rightarrow> int" where
  "zcard z = int (length z)"

definition zadd :: "int \<Rightarrow> int \<Rightarrow> zset \<Rightarrow> zset" where
  "zadd m s z =
     (if m \<in> fst ` set z
      then map (\<lambda>(m', s'). if m' = m then (m', s) else (m', s')) z
      else z @ [(m, s)])"

type_synonym rate_store = "string \<Rightarrow> zkey"

text \<open>
  The exceptions of the Python code that the model follows.
\<close>

datatype py_error = ConnectionError | JSONDecodeError | AttributeError

text \<open>
  A connection pool is created without connecting
  (\<^verbatim>\<open>ConnectionPool.from_url\<close>); the first command sent through it connects. So a pool
  either reaches the store or it does not, and in the second case
  \<^verbatim>\<open>pipeline.execute()\<close> raises \<^verbatim>\<open>ConnectionError\<close>.
\<close>

datatype connection = Unreachable | Reachable rate_store

subsection \<open>\<^verbatim>\<open>_check_rate_limit\<close>\<close>

text \<open>
  The function reads the name \<^verbatim>\<open>redis_pool\<close> of its module: \<open>None\<close> when no pool
  was created, otherwise the pool. (The module takes the name
  with \<^verbatim>\<open>from api.db.session import redis_pool\<close>, so it keeps the value the name had
  at import time, which is \<^verbatim>\<open>None\<close>; \<^verbatim>\<open>init_db\<close> rebinds the name in
  \<^verbatim>\<open>api.db.session\<close> only. The model takes the pool as an argument and covers all
  cases.) The clock reading
  \<^verbatim>\<open>int(time.time())\<close> is the argument \<open>current\<close>. The four pipeline commands run in
  the order of the source. The result is the triple
  \<^verbatim>\<open>(is_rate_limited, remaining, reset_time)\<close> together with the pool afterwards, or
  the exception raised: neither \<^verbatim>\<open>_check_rate_limit\<close> nor its caller
  \<^verbatim>\<open>dispatch\<close> has a handler.
\<close>

definition check_rate_limit ::
  "connection option \<Rightarrow> string \<Rightarrow> int \<Rightarrow> int \<Rightarrow> int
     \<Rightarrow> py_error + ((bool \<times> int \<times> int) \<times> connection option)"
where
  "check_rate_limit redis_pool key limit window current =
     (case redis_pool of
        None \<Rightarrow> Inr ((False, limit, window), None)
      | Some Unreachable \<Rightarrow> Inl ConnectionError
      | Some (Reachable store) \<Rightarrow>
          (let window_start = current - window;
               z0 = members (live current (store key));
               z1 = zremrangebyscore 0 window_start z0;
               request_count = zcard z1;
               z2 = zadd current current z1;
               store' = store(key := \<lparr>members = z2, expires_at = Some (current + window)\<rparr>);
               is_rate_limited = (request_count \<ge> limit);
               remaining = max 0 (limit - request_count - 1);
               reset_time = (if window > 60 then window - (current mod window) else window)
           in Inr ((is_rate_limited, remaining, reset_time), Some (Reachable store'))))"

text \<open>
  One request after the other on the same key, at the clock readings \<open>ts\<close>: the
  verdicts \<^verbatim>\<open>is_rate_limited\<close> in order and the pool afterwards, or the first
  exception.
\<close>

fun check_all ::
  "connection option \<Rightarrow> string \<Rightarrow> int \<Rightarrow> int \<Rightarrow> int list
     \<Rightarrow> py_error + (bool list \<times> connection option)"
where
  "check_all pool key limit window [] = Inr ([], pool)"
| "check_all pool key limit window (t # ts) =
     (case check_rate_limit pool key limit window t of
        Inl e \<Rightarrow> Inl e
      | Inr (res, pool') \<Rightarrow>
          (case check_all pool' key limit window ts of
             Inl e \<Rightarrow> Inl e
           | Inr (bs, pool'') \<Rightarrow> Inr (fst res # bs, pool'')))"

definition empty_store :: rate_store where
  "empty_store = (\<lambda>k. no_key)"

text \<open>
  What a check at time \<open>t\<close> counts under a key: the members that are left once a lapsed
  key is dropped and the scores from 0 to \<open>t - window\<close> are removed.
\<close>

definition seen :: "int \<Rightarrow> int \<Rightarrow> zkey \<Rightarrow> zset" where
  "seen window t k = zremrangebyscore 0 (t - window) (members (live t k))"

section \<open>Python floats\<close>

text \<open>
  Quality scores are Python floats, that is IEEE 754 binary64 numbers. A float is
  modelled by the rational number it stands for. \<open>py_float x\<close> is the float nearest to
  the rational \<open>x\<close> (53 significant bits, ties to the even significand), which is the
  value of a decimal literal; \<open>float_mul\<close> is the correctly rounded product computed by
  \<^verbatim>\<open>*\<close>. Comparisons of floats are comparisons of their values. Only the normal
  range is modelled: the scores of this program lie between 0 and 1, where neither
  overflow nor subnormal numbers occur.
\<close>

definition pow2 :: "int \<Rightarrow> rat" where
  "pow2 e = (if 0 \<le> e then 2 ^ nat e else 1 / 2 ^ nat (- e))"

text \<open>For \<open>x > 0\<close>, the exponent \<open>e\<close> with \<open>2\<^sup>e \<le> x < 2\<^sup>e\<^sup>+\<^sup>1\<close>.\<close>

definition binary_exponent :: "rat \<Rightarrow> int" where
  "binary_exponent x =
     (if 1 \<le> x then int (floorlog 2 (nat \<lfloor>x\<rfloor>)) - 1
      else - int (floorlog 2 (nat (\<lceil>1 / x\<rceil> - 1))))"

definition round_half_even :: "rat \<Rightarrow> int" where
  "round_half_even y =
     (let f = \<lfloor>y\<rfloor>; r = y - of_int f
      in if r < 1 / 2 then f
         else if 1 / 2 < r then f + 1
         else if even f then f else f + 1)"

definition py_float :: "rat \<Rightarrow> rat" where
  "py_float x =
     (if x = 0 then 0
      else (let u = pow2 (binary_exponent \<bar>x\<bar> - 52)
            in sgn x * of_int (round_half_even (\<bar>x\<bar> / u)) * u))"

definition float_mul :: "rat \<Rightarrow> rat \<Rightarrow> rat" where
  "float_mul a b = py_float (a * b)"

section \<open>Strings of integers\<close>

text \<open>Python's \<^verbatim>\<open>str\<close> on integers, used by f-strings and by Redis for counters.\<close>

definition digit_char :: "nat \<Rightarrow> char" where
  "digit_char d = ''0123456789'' ! d"

function str_nat :: "nat \<Rightarrow> string" where
  "str_nat n = (if n < 10 then [digit_char n] else str_nat (n div 10) @ [digit_char (n mod 10)])"
  by pat_completeness auto
termination
  by (relation "measure id") auto

declare str_nat.simps [simp del]

definition str_int :: "int \<Rightarrow> string" where
  "str_int i = (if i < 0 then CHR ''-'' # str_nat (nat (- i)) else str_nat (nat i))"

section \<open>The key-value store\<close>

text \<open>
  The services keep their documents in Redis as JSON text under keys built with
  f-strings. The key families \<^verbatim>\<open>session:\<close>, \<^verbatim>\<open>user:profile:\<close>,
  \<^verbatim>\<open>user:tasks_completed:\<close>, \<^verbatim>\<open>task:\<close>, \<^verbatim>\<open>validation:\<close>, \<^verbatim>\<open>submission:\<close> and
  \<^verbatim>\<open>batch:\<close> have prefixes none of which begins another, so no key of one family is a
  key of another, and the store is a record with one map per family, from the full key
  to the stored value and its deadline. The lease keys \<^verbatim>\<open>task:assigned:<id>\<close> begin
  with \<^verbatim>\<open>task:\<close> and therefore live in the family of the task records: a lookup of
  \<^verbatim>\<open>task:<id>\<close> with the id \<^verbatim>\<open>assigned:<uuid>\<close> finds a lease. Every writer of a
  document stores all its fields, so a document is a record of these fields.

  Time is the clock in seconds, a rational number, which also stands for
  \<^verbatim>\<open>datetime.now()\<close>. A key written with \<^verbatim>\<open>ex=\<close> carries the deadline, the
  time of writing plus the lifetime; once the clock has passed the deadline the key is
  gone, and \<open>redis_get\<close> returns \<open>None\<close> for it, as for a key that was never written.

  The completion counter is the one value kept as a plain string: it is written as
  \<^verbatim>\<open>"0"\<close> and changed by \<^verbatim>\<open>INCR\<close> only, so Redis holds the integer and \<^verbatim>\<open>GET\<close>
  returns its decimal string (\<open>redis_get_str\<close>).
\<close>

type_synonym 'v family = "string \<rightharpoonup> ('v \<times> rat option)"

definition redis_get :: "'v family \<Rightarrow> rat \<Rightarrow> string \<Rightarrow> 'v option" where
  "redis_get m now k =
     (case m k of
        None \<Rightarrow> None
      | Some (v, None) \<Rightarrow> Some v
      | Some (v, Some d) \<Rightarrow> if d < now then None else Some v)"

definition redis_set :: "'v family \<Rightarrow> rat \<Rightarrow> string \<Rightarrow> 'v \<Rightarrow> int \<Rightarrow> 'v family" where
  "redis_set m now k v ex = m(k \<mapsto> (v, Some (now + of_int ex)))"

definition redis_get_str :: "int family \<Rightarrow> rat \<Rightarrow> string \<Rightarrow> string option" where
  "redis_get_str m now k = map_option str_int (redis_get m now k)"

definition redis_incr :: "int family \<Rightarrow> rat \<Rightarrow> string \<Rightarrow> int family" where
  "redis_incr m now k =
     (case m k of
        None \<Rightarrow> m(k \<mapsto> (1, None))
      | Some (n, None) \<Rightarrow> m(k \<mapsto> (n + 1, None))
      | Some (n, Some d) \<Rightarrow> if d < now then m(k \<mapsto> (1, None)) else m(k \<mapsto> (n + 1, Some d)))"

text \<open>\<^verbatim>\<open>int(x)\<close> on a float: truncation towards zero.\<close>

definition py_int :: "rat \<Rightarrow> int" where
  "py_int x = (if x < 0 then \<lceil>x\<rceil> else \<lfloor>x\<rfloor>)"

section \<open>Documents and API models (api/models)\<close>

record client_info =
  ci_browser :: string
  ci_browser_version :: string
  ci_os :: string
  ci_screen_resolution :: string
  ci_language :: string
  ci_timezone :: "string option"
  ci_referring_url :: "string option"
  ci_device_type :: "string option"

record consent_settings =
  cs_functional :: bool
  cs_analytics :: bool

record session_init_request =
  sir_publisher_id :: string
  sir_client_info :: client_info
  sir_consent :: consent_settings

record user_profile =
  up_language :: string
  up_expertise_level :: string
  up_task_preferences :: "string list"
  up_max_complexity :: int

record session_config =
  sc_task_interval_seconds :: int
  sc_minimum_view_time_seconds :: int
  sc_ui_theme :: string

record session_init_response =
  sr_session_id :: string
  sr_expires_at :: rat
  sr_profile :: user_profile
  sr_config :: session_config

record session_doc =
  sd_session_id :: string
  sd_publisher_id :: string
  sd_created_at :: rat
  sd_expires_at :: rat
  sd_client_info :: client_info
  sd_consent :: consent_settings

record task_content =
  tc_image_url :: "string option"
  tc_question :: "string option"
  tc_text :: "string option"
  tc_audio_url :: "string option"
  tc_video_url :: "string option"
  tc_context :: "string option"

record reward =
  rw_type :: string
  rw_duration_seconds :: "int option"
  rw_points :: "int option"
  rw_description :: "string option"

record task_response =
  tr_task_id :: string
  tr_task_type :: string
  tr_content :: task_content
  tr_options :: "string list option"
  tr_time_estimate_seconds :: int
  tr_complexity_level :: int
  tr_golden_set :: bool
  tr_expires_at :: rat

record task_summary =
  ts_task_id :: string
  ts_task_type :: string
  ts_content :: task_content
  ts_options :: "string list option"
  ts_complexity_level :: int

record task_batch_response =
  tb_batch_id :: string
  tb_tasks :: "task_summary list"
  tb_expires_at :: rat

text \<open>
  A submitted response is a string, a list of strings or a dictionary
  (\<^verbatim>\<open>Union[str, List[str], Dict[str, Any]]\<close>). The program only compares it with the
  expected answer, a string, so the values of a dictionary are kept as strings.
\<close>

datatype response = RespStr string | RespList "string list" | RespDict "(string \<times> string) list"

text \<open>The request also carries \<^verbatim>\<open>session_info\<close>, which no service reads.\<close>

record task_submission_request =
  sub_session_id :: string
  sub_publisher_id :: string
  sub_response :: response
  sub_time_spent_ms :: int

record task_submission_response =
  sbr_success :: bool
  sbr_reward :: reward
  sbr_quality_score :: rat
  sbr_next_task_available :: bool

record validation_response =
  vr_validation_id :: string
  vr_quality_score :: rat
  vr_validation_method :: string
  vr_issues_detected :: "string list"
  vr_confidence :: string
  vr_feedback :: string

record task_doc =
  td_task_id :: string
  td_task_type :: string
  td_golden_set :: bool
  td_expected_answer :: "string option"
  td_publisher_id :: string
  td_session_id :: string
  td_complexity_level :: int
  td_created_at :: rat

record validation_doc =
  vd_validation_id :: string
  vd_task_id :: string
  vd_session_id :: string
  vd_publisher_id :: string
  vd_response :: response
  vd_time_spent_ms :: int
  vd_quality_score :: rat
  vd_validation_method :: string
  vd_issues_detected :: "string list"
  vd_validated_at :: rat

record submission_doc =
  sbd_task_id :: string
  sbd_session_id :: string
  sbd_publisher_id :: string
  sbd_response :: response
  sbd_time_spent_ms :: int
  sbd_quality_score :: rat
  sbd_submitted_at :: rat

record batch_doc =
  bd_batch_id :: string
  bd_publisher_id :: string
  bd_tasks :: "task_summary list"
  bd_created_at :: rat

text \<open>
  What a key that begins with \<^verbatim>\<open>task:\<close> holds: the JSON text of a task record, or
  the session id of a lease.
\<close>

datatype task_value = TaskDoc task_doc | Lease string

record redis =
  sessions :: "session_doc family"
  profiles :: "user_profile family"
  counters :: "int family"
  tasks :: "task_value family"
  validations :: "validation_doc family"
  submissions :: "submission_doc family"
  batches :: "batch_doc family"

definition empty_content :: task_content where
  "empty_content = \<lparr>tc_image_url = None, tc_question = None, tc_text = None,
     tc_audio_url = None, tc_video_url = None, tc_context = None\<rparr>"

section \<open>Session initialisation (api/services/user\_profiling.py)\<close>

text \<open>
  \<open>uuid_hex\<close> is the hexadecimal text of the \<^verbatim>\<open>uuid.uuid4()\<close> drawn by the call.
\<close>

definition initialize_user_session ::
  "redis \<Rightarrow> rat \<Rightarrow> string \<Rightarrow> session_init_request \<Rightarrow> session_init_response \<times> redis"
where
  "initialize_user_session redis now uuid_hex session_request =
     (let session_id = ''sess_'' @ take 12 uuid_hex;
          expires_at = now + 86400;
          lang = ci_language (sir_client_info session_request);
          language = (if CHR ''-'' \<in> set lang then takeWhile (\<lambda>c. c \<noteq> CHR ''-'') lang else lang);
          task_preferences =
            (if ci_device_type (sir_client_info session_request) = Some ''mobile''
             then [''vqa''] else [''vqa'', ''text_classification'']);
          profile = \<lparr>up_language = language, up_expertise_level = ''beginner'',
                     up_task_preferences = task_preferences, up_max_complexity = 2\<rparr>;
          config = \<lparr>sc_task_interval_seconds = 300, sc_minimum_view_time_seconds = 3,
                    sc_ui_theme = ''light''\<rparr>;
          session_key = ''session:'' @ sir_publisher_id session_request @ '':'' @ session_id;
          redis1 = redis\<lparr>sessions := redis_set (sessions redis) now session_key
                     \<lparr>sd_session_id = session_id,
                      sd_publisher_id = sir_publisher_id session_request,
                      sd_created_at = now, sd_expires_at = expires_at,
                      sd_client_info = sir_client_info session_request,
                      sd_consent = sir_consent session_request\<rparr> 86400\<rparr>;
          profile_key = ''user:profile:'' @ sir_publisher_id session_request @ '':'' @ session_id;
          redis2 = redis1\<lparr>profiles := redis_set (profiles redis1) now profile_key profile 86400\<rparr>;
          redis3 = redis2\<lparr>counters := redis_set (counters redis2) now
                      (''user:tasks_completed:'' @ session_id) 0 86400\<rparr>
      in (\<lparr>sr_session_id = session_id, sr_expires_at = expires_at,
            sr_profile = profile, sr_config = config\<rparr>, redis3))"

section \<open>The task selector (api/services/task\_management.py)\<close>

text \<open>
  \<open>uuid4\<close> is the text of the \<^verbatim>\<open>uuid.uuid4()\<close> drawn for the task. The result is the
  returned task, or \<open>None\<close>, and the store afterwards.
\<close>

definition get_next_task ::
  "redis \<Rightarrow> rat \<Rightarrow> string \<Rightarrow> string \<Rightarrow> string \<Rightarrow> string option \<Rightarrow> string option \<Rightarrow> string option
     \<Rightarrow> task_response option \<times> redis"
where
  "get_next_task redis now uuid4 session_id publisher_id language website_category previous_task_id =
     (let user_profile_key = ''user:profile:'' @ publisher_id @ '':'' @ session_id
      in case redis_get (profiles redis) now user_profile_key of
           None \<Rightarrow> (None, redis)
         | Some user_profile \<Rightarrow>
             (let user_language =
                    (case language of
                       None \<Rightarrow> up_language user_profile
                     | Some l \<Rightarrow> if l = [] then up_language user_profile else l);
                  user_expertise = up_expertise_level user_profile;
                  max_complexity = up_max_complexity user_profile;
                  task_id = uuid4;
                  complexity_level = min max_complexity 3;
                  golden_set =
                    (user_expertise = ''beginner'' \<and>
                     redis_get_str (counters redis) now (''user:tasks_completed:'' @ session_id)
                       = Some ''0'');
                  assignment_key = ''task:assigned:'' @ task_id;
                  redis1 = redis\<lparr>tasks := redis_set (tasks redis) now assignment_key
                             (Lease session_id) 300\<rparr>;
                  task = \<lparr>tr_task_id = task_id, tr_task_type = ''vqa'',
                          tr_content = empty_content
                            \<lparr>tc_image_url := Some (''https://storage.hotlabel.io/samples/image''
                                 @ drop (length task_id - 4) task_id @ ''.jpg''),
                             tc_question := Some ''What color is the car in this image?''\<rparr>,
                          tr_options = Some [''Red'', ''Blue'', ''Green'', ''Yellow''],
                          tr_time_estimate_seconds = 5,
                          tr_complexity_level = complexity_level,
                          tr_golden_set = golden_set,
                          tr_expires_at = now + 300\<rparr>;
                  task_key = ''task:'' @ task_id;
                  redis2 = redis1\<lparr>tasks := redis_set (tasks redis1) now task_key
                             (TaskDoc
                               \<lparr>td_task_id = task_id, td_task_type = ''vqa'',
                                td_golden_set = golden_set,
                                td_expected_answer = (if golden_set then Some ''Blue'' else None),
                                td_publisher_id = publisher_id, td_session_id = session_id,
                                td_complexity_level = complexity_level,
                                td_created_at = now\<rparr>) 3600\<rparr>
              in (Some task, redis2)))"

section \<open>Reading a task key\<close>

text \<open>
  Both services read \<^verbatim>\<open>task:<task_id>\<close> and hand the text to \<^verbatim>\<open>json.loads\<close>.
  The text of a task record decodes to the dictionary that was written. The text of a
  lease is a session id: \<^verbatim>\<open>json.loads\<close> skips leading white space and raises
  \<^verbatim>\<open>JSONDecodeError\<close> unless the next character can begin a JSON value
  (\<open>can_start_json\<close>); what it makes of the other texts is the parameter \<open>loads\<close> of
  the services below, and every theorem holds for every such function.

  Of the decoded value the services call \<^verbatim>\<open>.get\<close>, which only a dictionary has
  (\<^verbatim>\<open>AttributeError\<close> otherwise), for \<^verbatim>\<open>task_type\<close>, which the validator never
  reads, for the truth value of \<^verbatim>\<open>golden_set\<close>, and for \<^verbatim>\<open>expected_answer\<close>, which is
  only tested against \<^verbatim>\<open>None\<close> and compared with the response: \<open>None\<close> stands for
  an absent or null answer and for one that no response equals.
\<close>

record task_dict =
  d_task_type :: string
  d_golden_set :: bool
  d_expected_answer :: "response option"

datatype json_value = JObject task_dict | JOther

definition json_whitespace :: "char \<Rightarrow> bool" where
  "json_whitespace c = (c \<in> set [CHR '' '', CHR 0x09, CHR 0x0A, CHR 0x0D])"

definition can_start_json :: "string \<Rightarrow> bool" where
  "can_start_json s =
     (case dropWhile json_whitespace s of
        [] \<Rightarrow> False
      | c # _ \<Rightarrow> c \<in> set (CHR 0x22 # ''{[-0123456789tfnNI''))"

definition json_loads :: "(string \<Rightarrow> py_error + json_value) \<Rightarrow> task_value \<Rightarrow> py_error + json_value" where
  "json_loads loads task_json =
     (case task_json of
        TaskDoc td \<Rightarrow>
          Inr (JObject \<lparr>d_task_type = td_task_type td, d_golden_set = td_golden_set td,
                         d_expected_answer = map_option RespStr (td_expected_answer td)\<rparr>)
      | Lease s \<Rightarrow> if can_start_json s then loads s else Inl JSONDecodeError)"

text \<open>\<^verbatim>\<open>task_data.get\<close>: the attribute lookup, before any argument is used.\<close>

definition dict_get :: "json_value \<Rightarrow> py_error + task_dict" where
  "dict_get task_data = (case task_data of JObject d \<Rightarrow> Inr d | JOther \<Rightarrow> Inl AttributeError)"

text \<open>\<^verbatim>\<open>not task_json\<close>: no value, or the empty text.\<close>

definition not_task_json :: "task_value option \<Rightarrow> bool" where
  "not_task_json task_json = (task_json = None \<or> task_json = Some (Lease []))"

section \<open>The quality validator (api/services/quality\_assurance.py)\<close>

text \<open>
  \<^verbatim>\<open>task_data.get("golden_set", False)\<close> is evaluated only when the validation type is
  \<^verbatim>\<open>golden_set\<close>; a golden-set validation of a task that is not a golden-set task
  keeps the default score.
\<close>

definition validate_label_quality ::
  "(string \<Rightarrow> py_error + json_value) \<Rightarrow> redis \<Rightarrow> rat \<Rightarrow> string \<Rightarrow> string \<Rightarrow> string \<Rightarrow> string
     \<Rightarrow> response \<Rightarrow> int \<Rightarrow> string \<Rightarrow> string \<Rightarrow> py_error + (validation_response \<times> redis)"
where
  "validate_label_quality loads redis now uuid_hex task_id session_id publisher_id response
       time_spent_ms task_type validation_type =
     (let task_key = ''task:'' @ task_id;
          task_json = redis_get (tasks redis) now task_key
      in if not_task_json task_json then
           Inr (\<lparr>vr_validation_id = ''val_'' @ take 10 uuid_hex,
                 vr_quality_score = py_float (2 / 10),
                 vr_validation_method = ''unknown'',
                 vr_issues_detected = [''task_not_found''],
                 vr_confidence = ''low'',
                 vr_feedback = ''Task not found or expired''\<rparr>, redis)
         else
           case json_loads loads (the task_json) of
             Inl e \<Rightarrow> Inl e
           | Inr task_data \<Rightarrow>
               (let validation_id = ''val_'' @ take 10 uuid_hex;
                    quality_score = py_float (8 / 10)
                in case
                     (if validation_type = ''golden_set'' then
                        (case dict_get task_data of
                           Inl e \<Rightarrow> Inl e
                         | Inr d \<Rightarrow>
                             if d_golden_set d then
                               (let expected_answer = d_expected_answer d
                                in if expected_answer \<noteq> None \<and> response = the expected_answer
                                   then Inr (py_float 1, [], ''Correct response matches expected answer'')
                                   else Inr (py_float (3 / 10), [''incorrect_golden_set_answer''],
                                             ''Response does not match expected answer''))
                             else Inr (quality_score, [], []))
                      else if validation_type = ''consensus'' then
                        (if time_spent_ms < 500
                         then Inr (float_mul quality_score (py_float (5 / 10)),
                                   [''suspiciously_fast_response''],
                                   ''Response time was suspiciously fast'')
                         else if time_spent_ms > 30000
                         then Inr (float_mul quality_score (py_float (9 / 10)),
                                   [''slow_response''],
                                   ''Response time was slower than expected'')
                         else Inr (quality_score, [], []))
                      else Inr (quality_score, [], []))
                   of
                     Inl e \<Rightarrow> Inl e
                   | Inr (quality_score, issues_detected, feedback) \<Rightarrow>
                       (let validation_key = ''validation:'' @ validation_id;
                            redis1 = redis\<lparr>validations :=
                                       redis_set (validations redis) now validation_key
                                         \<lparr>vd_validation_id = validation_id, vd_task_id = task_id,
                                          vd_session_id = session_id,
                                          vd_publisher_id = publisher_id,
                                          vd_response = response,
                                          vd_time_spent_ms = time_spent_ms,
                                          vd_quality_score = quality_score,
                                          vd_validation_method = validation_type,
                                          vd_issues_detected = issues_detected,
                                          vd_validated_at = now\<rparr> 86400\<rparr>;
                            confidence = (if validation_type = ''golden_set'' then ''high''
                                          else ''medium'')
                        in Inr (\<lparr>vr_validation_id = validation_id,
                                  vr_quality_score = quality_score,
                                  vr_validation_method = validation_type,
                                  vr_issues_detected = issues_detected,
                                  vr_confidence = confidence,
                                  vr_feedback = feedback\<rparr>, redis1))))"

section \<open>Submission and reward (api/services/task\_management.py)\<close>

text \<open>The reward tier computed from the validator's score in \<^verbatim>\<open>submit_task_result\<close>.\<close>

definition reward_duration :: "rat \<Rightarrow> int" where
  "reward_duration quality_score =
     (if quality_score \<ge> py_float (9 / 10) then 7200
      else if quality_score \<ge> py_float (8 / 10) then 5400
      else if quality_score \<ge> py_float (7 / 10) then 3600
      else 1800)"

definition submit_task_result ::
  "(string \<Rightarrow> py_error + json_value) \<Rightarrow> redis \<Rightarrow> rat \<Rightarrow> string \<Rightarrow> string \<Rightarrow> task_submission_request
     \<Rightarrow> py_error + (task_submission_response \<times> redis)"
where
  "submit_task_result loads redis now uuid_hex task_id submission =
     (let task_key = ''task:'' @ task_id;
          task_json = redis_get (tasks redis) now task_key
      in if not_task_json task_json then
           Inr (\<lparr>sbr_success = False,
                 sbr_reward = \<lparr>rw_type = ''none'', rw_duration_seconds = None,
                                rw_points = None, rw_description = None\<rparr>,
                 sbr_quality_score = py_float 0,
                 sbr_next_task_available = True\<rparr>, redis)
         else
           case json_loads loads (the task_json) of
             Inl e \<Rightarrow> Inl e
           | Inr task_data \<Rightarrow>
               (case dict_get task_data of
                  Inl e \<Rightarrow> Inl e
                | Inr d \<Rightarrow>
                    (case validate_label_quality loads redis now uuid_hex task_id
                            (sub_session_id submission) (sub_publisher_id submission)
                            (sub_response submission) (sub_time_spent_ms submission)
                            (d_task_type d)
                            (if d_golden_set d then ''golden_set'' else ''consensus'') of
                       Inl e \<Rightarrow> Inl e
                     | Inr (validation_result, redis1) \<Rightarrow>
                         (let duration = reward_duration (vr_quality_score validation_result);
                              submission_key = ''submission:'' @ task_id;
                              redis2 = redis1\<lparr>submissions :=
                                         redis_set (submissions redis1) now submission_key
                                           \<lparr>sbd_task_id = task_id,
                                            sbd_session_id = sub_session_id submission,
                                            sbd_publisher_id = sub_publisher_id submission,
                                            sbd_response = sub_response submission,
                                            sbd_time_spent_ms = sub_time_spent_ms submission,
                                            sbd_quality_score = vr_quality_score validation_result,
                                            sbd_submitted_at = now\<rparr> 86400\<rparr>;
                              redis3 = redis2\<lparr>counters := redis_incr (counters redis2) now
                                         (''user:tasks_completed:'' @ sub_session_id submission)\<rparr>;
                              next_task_available = True
                          in Inr (\<lparr>sbr_success = True,
                                    sbr_reward = \<lparr>rw_type = ''content_access'',
                                                   rw_duration_seconds = Some duration,
                                                   rw_points = None, rw_description = None\<rparr>,
                                    sbr_quality_score = vr_quality_score validation_result,
                                    sbr_next_task_available = next_task_available\<rparr>, redis3)))))"

section \<open>Batches (api/services/task\_management.py, api/routers/tasks.py)\<close>

text \<open>
  \<open>uuids i\<close> is the text of the \<^verbatim>\<open>uuid.uuid4()\<close> drawn in round \<open>i\<close> of the loop;
  \<^verbatim>\<open>range(count)\<close> is empty for a count below 1.
\<close>

definition get_task_batch ::
  "redis \<Rightarrow> rat \<Rightarrow> (nat \<Rightarrow> string) \<Rightarrow> string \<Rightarrow> int \<Rightarrow> string option \<Rightarrow> string option \<Rightarrow> string option
     \<Rightarrow> task_batch_response \<times> redis"
where
  "get_task_batch redis now uuids publisher_id count language category complexity =
     (let complexity_level =
            (if complexity = Some ''medium'' then 2
             else if complexity = Some ''high'' then 3
             else 1);
          tasks = map (\<lambda>i. \<lparr>ts_task_id = uuids i, ts_task_type = ''vqa'',
                              ts_content = empty_content
                                \<lparr>tc_image_url := Some (''https://storage.hotlabel.io/samples/image''
                                     @ str_nat i @ ''.jpg''),
                                 tc_question := Some ''What color is the car in this image?''\<rparr>,
                              ts_options = Some [''Red'', ''Blue'', ''Green'', ''Yellow''],
                              ts_complexity_level = complexity_level\<rparr>)
                      [0 ..< nat count];
          batch_id = ''batch_'' @ str_int (py_int now);
          batch_key = ''batch:'' @ batch_id;
          redis1 = redis\<lparr>batches := redis_set (batches redis) now batch_key
                     \<lparr>bd_batch_id = batch_id, bd_publisher_id = publisher_id,
                      bd_tasks = tasks, bd_created_at = now\<rparr> 3600\<rparr>
      in (\<lparr>tb_batch_id = batch_id, tb_tasks = tasks, tb_expires_at = now + 1800\<rparr>, redis1))"

text \<open>
  The route \<^verbatim>\<open>GET /batch\<close>. The framework checks the query parameters before the
  handler runs: \<^verbatim>\<open>count\<close> defaults to 10 and must lie between 1 and 100, and
  \<^verbatim>\<open>complexity\<close>, when given, must match \<^verbatim>\<open>^(low|medium|high)$\<close>, where \<^verbatim>\<open>$\<close>
  also matches before one final newline. \<open>auth_publisher_id\<close> is the publisher of the
  authenticated caller.
\<close>

datatype http_error = HTTP_400 string | HTTP_204 string | HTTP_422

definition complexity_ok :: "string option \<Rightarrow> bool" where
  "complexity_ok complexity =
     (case complexity of
        None \<Rightarrow> True
      | Some s \<Rightarrow>
          s \<in> set [''low'', ''medium'', ''high'']
          \<or> (s \<noteq> [] \<and> last s = CHR 0x0A \<and> butlast s \<in> set [''low'', ''medium'', ''high'']))"

definition get_tasks_batch ::
  "redis \<Rightarrow> rat \<Rightarrow> (nat \<Rightarrow> string) \<Rightarrow> string \<Rightarrow> string \<Rightarrow> int option \<Rightarrow> string option \<Rightarrow> string option
     \<Rightarrow> string option \<Rightarrow> (http_error + task_batch_response) \<times> redis"
where
  "get_tasks_batch redis now uuids auth_publisher_id publisher_id count_param language category complexity =
     (let count = (case count_param of None \<Rightarrow> 10 | Some c \<Rightarrow> c)
      in if count < 1 \<or> 100 < count \<or> \<not> complexity_ok complexity then (Inl HTTP_422, redis)
         else if publisher_id \<noteq> auth_publisher_id then (Inl (HTTP_400 ''invalid_parameter''), redis)
         else (let (batch, redis1) =
                     get_task_batch redis now uuids publisher_id count language category complexity
               in if tb_tasks batch = [] then (Inl (HTTP_204 ''no_tasks_available''), redis1)
                  else (Inr batch, redis1)))"

section \<open>A sample store\<close>

text \<open>
  A store with one session of publisher \<^verbatim>\<open>pub_1\<close>, a beginner with no completed task,
  and two assignments written at time 0: a golden-set task and a consensus task.
\<close>

definition empty_redis :: redis where
  "empty_redis = \<lparr>sessions = Map.empty, profiles = Map.empty, counters = Map.empty,
     tasks = Map.empty, validations = Map.empty,
     submissions = Map.empty, batches = Map.empty\<rparr>"

definition golden_task :: task_doc where
  "golden_task = \<lparr>td_task_id = ''t-golden'', td_task_type = ''vqa'', td_golden_set = True,
     td_expected_answer = Some ''Blue'', td_publisher_id = ''pub_1'', td_session_id = ''sess_1'',
     td_complexity_level = 2, td_created_at = 0\<rparr>"

definition consensus_task :: task_doc where
  "consensus_task = \<lparr>td_task_id = ''t-consensus'', td_task_type = ''vqa'', td_golden_set = False,
     td_expected_answer = None, td_publisher_id = ''pub_1'', td_session_id = ''sess_1'',
     td_complexity_level = 2, td_created_at = 0\<rparr>"

definition sample_redis :: redis where
  "sample_redis = empty_redis
     \<lparr>profiles := redis_set Map.empty 0 ''user:profile:pub_1:sess_1''
        \<lparr>up_language = ''en'', up_expertise_level = ''beginner'',
         up_task_preferences = [''vqa''], up_max_complexity = 2\<rparr> 86400,
      counters := redis_set Map.empty 0 ''user:tasks_completed:sess_1'' 0 86400,
      tasks := redis_set (redis_set Map.empty 0 ''task:t-golden'' (TaskDoc golden_task) 3600)
                 0 ''task:t-consensus'' (TaskDoc consensus_task) 3600\<rparr>"

text \<open>
  No run on the sample store reads a lease whose text begins like a JSON value, so none
  asks what \<^verbatim>\<open>json.loads\<close> makes of such a text; the sample runs are given the
  decoder that rejects every text.
\<close>

definition no_json :: "string \<Rightarrow> py_error + json_value" where
  "no_json s = Inl JSONDecodeError"

definition sample_submission :: "response \<Rightarrow> int \<Rightarrow> task_submission_request" where
  "sample_submission r ms = \<lparr>sub_session_id = ''sess_1'', sub_publisher_id = ''pub_1'',
     sub_response = r, sub_time_spent_ms = ms\<rparr>"

section \<open>Properties of the rate limiter\<close>

subsection \<open>One check, and a run of checks at different seconds\<close>

lemma zrem_dup:
  "\<forall>p\<in>set ps. 0 \<le> p \<Longrightarrow> zremrangebyscore 0 hi (map (\<lambda>t. (t, t)) ps) = map (\<lambda>t. (t, t)) (filter (\<lambda>p. hi < p) ps)"
  by (induction ps) (auto simp: zremrangebyscore_def)

lemma zadd_fresh: "m \<notin> fst ` set z \<Longrightarrow> zadd m s z = z @ [(m, s)]"
  by (simp add: zadd_def)

lemma zadd_member: "(m, s) \<in> set (zadd m s z)"
  by (force simp: zadd_def)

text \<open>
  The invariant of a run: \<open>ps\<close> are the clock readings of the requests made so far, all
  earlier than \<open>t\<close>; whatever a later check counts under the key is what the window
  leaves of \<open>ps\<close>.
\<close>

lemma check_step:
  assumes J: "\<forall>u. t0 < u \<longrightarrow> seen window u (store key) = map (\<lambda>t. (t, t)) (filter (\<lambda>p. u - window < p) ps)"
    and t: "t0 < t" "0 \<le> t" and ps: "\<forall>p\<in>set ps. 0 \<le> p \<and> p < t"
  shows "\<exists>res store'.
          check_rate_limit (Some (Reachable store)) key limit window t
            = Inr (res, Some (Reachable store'))
          \<and> fst res = (limit \<le> int (length (filter (\<lambda>p. t - window < p) ps)))
          \<and> (\<forall>u. t < u \<longrightarrow> seen window u (store' key) = map (\<lambda>t. (t, t)) (filter (\<lambda>p. u - window < p) (ps @ [t])))"
proof -
  let ?z1 = "map (\<lambda>t. (t, t)) (filter (\<lambda>p. t - window < p) ps)"
  have z1: "zremrangebyscore 0 (t - window) (members (live t (store key))) = ?z1"
    using J t(1) by (simp add: seen_def)
  have fresh: "t \<notin> fst ` set ?z1" using ps by (auto simp: image_iff)
  let ?k' = "\<lparr>members = ?z1 @ [(t, t)], expires_at = Some (t + window)\<rparr>"
  let ?res = "(limit \<le> zcard ?z1, max 0 (limit - zcard ?z1 - 1),
               if window > 60 then window - (t mod window) else window)"
  have c: "check_rate_limit (Some (Reachable store)) key limit window t
            = Inr (?res, Some (Reachable (store(key := ?k'))))"
    using z1 zadd_fresh[OF fresh, of t] by (simp add: check_rate_limit_def Let_def)
  have v: "fst ?res = (limit \<le> int (length (filter (\<lambda>p. t - window < p) ps)))"
    by (simp add: zcard_def)
  have "seen window u ?k' = map (\<lambda>t. (t, t)) (filter (\<lambda>p. u - window < p) (ps @ [t]))" if u: "t < u" for u
  proof (cases "t + window \<le> u")
    case True
    then have "filter (\<lambda>p. u - window < p) (ps @ [t]) = []"
      using ps by (auto simp: filter_empty_conv)
    then show ?thesis using True by (simp add: seen_def live_def no_key_def zremrangebyscore_def)
  next
    case False
    have nn: "\<forall>p\<in>set (filter (\<lambda>p. t - window < p) ps @ [t]). 0 \<le> p" using ps t by auto
    have "zremrangebyscore 0 (u - window) (map (\<lambda>t. (t, t)) (filter (\<lambda>p. t - window < p) ps @ [t]))
          = map (\<lambda>t. (t, t)) (filter (\<lambda>p. u - window < p) (filter (\<lambda>p. t - window < p) ps @ [t]))"
      by (rule zrem_dup[OF nn])
    moreover have "filter (\<lambda>p. u - window < p) (filter (\<lambda>p. t - window < p) ps) = filter (\<lambda>p. u - window < p) ps"
      using u by (auto intro: filter_cong)
    ultimately show ?thesis using False by (simp add: seen_def live_def)
  qed
  then have "\<forall>u. t < u \<longrightarrow> seen window u ((store(key := ?k')) key)
               = map (\<lambda>t. (t, t)) (filter (\<lambda>p. u - window < p) (ps @ [t]))"
    by simp
  with c v show ?thesis by blast
qed

lemma check_all_verdicts:
  assumes "\<forall>u. t0 < u \<longrightarrow> seen window u (store key) = map (\<lambda>t. (t, t)) (filter (\<lambda>p. u - window < p) ps)"
    and "sorted_wrt (<) ts" and "\<forall>t\<in>set ts. t0 < t \<and> 0 \<le> t"
    and "\<forall>p\<in>set ps. 0 \<le> p \<and> (\<forall>t\<in>set ts. p < t)"
  shows "\<exists>bs pool'.
           check_all (Some (Reachable store)) key limit window ts = Inr (bs, pool')
           \<and> length bs = length ts
           \<and> (\<forall>k<length ts. bs ! k
                 = (limit \<le> int (length (filter (\<lambda>p. ts ! k - window < p) (ps @ take k ts)))))"
  using assms
proof (induction ts arbitrary: store ps t0)
  case Nil
  then show ?case by simp
next
  case (Cons t ts)
  have t: "t0 < t" "0 \<le> t" using Cons.prems(3) by auto
  have ps: "\<forall>p\<in>set ps. 0 \<le> p \<and> p < t" using Cons.prems(4) by auto
  from check_step[where store = store and key = key and window = window and ps = ps
      and ?t0.0 = t0 and t = t and limit = limit] Cons.prems(1) t ps
  obtain res store' where c:
      "check_rate_limit (Some (Reachable store)) key limit window t = Inr (res, Some (Reachable store'))"
    and v: "fst res = (limit \<le> int (length (filter (\<lambda>p. t - window < p) ps)))"
    and J': "\<forall>u. t < u \<longrightarrow> seen window u (store' key) = map (\<lambda>t. (t, t)) (filter (\<lambda>p. u - window < p) (ps @ [t]))"
    by blast
  have s': "sorted_wrt (<) ts" using Cons.prems(2) by simp
  have lt: "\<forall>u\<in>set ts. t < u \<and> 0 \<le> u" using Cons.prems(2,3) by auto
  have ps': "\<forall>p\<in>set (ps @ [t]). 0 \<le> p \<and> (\<forall>u\<in>set ts. p < u)"
    using Cons.prems(2,4) t by auto
  from Cons.IH[where store = store' and ps = "ps @ [t]" and ?t0.0 = t] J' s' lt ps'
  obtain bs pool'' where r: "check_all (Some (Reachable store')) key limit window ts = Inr (bs, pool'')"
    and len: "length bs = length ts"
    and rest: "\<forall>k<length ts. bs ! k
                 = (limit \<le> int (length (filter (\<lambda>p. ts ! k - window < p) ((ps @ [t]) @ take k ts))))"
    by blast
  have all: "check_all (Some (Reachable store)) key limit window (t # ts) = Inr (fst res # bs, pool'')"
    using c r by simp
  have "(fst res # bs) ! k
          = (limit \<le> int (length (filter (\<lambda>p. (t # ts) ! k - window < p) (ps @ take k (t # ts)))))"
    if k: "k < length (t # ts)" for k
  proof (cases k)
    case 0
    then show ?thesis using v by simp
  next
    case (Suc j)
    then have "j < length ts" using k by simp
    then show ?thesis using rest Suc by simp
  qed
  then show ?case using all len by simp
qed

lemma seen_empty: "seen window u (empty_store key) = []"
  by (simp add: seen_def empty_store_def live_def no_key_def zremrangebyscore_def)

lemma verdicts_from_empty:
  assumes "sorted_wrt (<) ts" and "\<forall>t\<in>set ts. 0 \<le> t"
  shows "\<exists>bs pool'.
           check_all (Some (Reachable empty_store)) key limit window ts = Inr (bs, pool')
           \<and> length bs = length ts
           \<and> (\<forall>k<length ts. bs ! k
                 = (limit \<le> int (length (filter (\<lambda>p. ts ! k - window < p) (take k ts)))))"
proof -
  have "\<forall>u. -1 < u \<longrightarrow> seen window u (empty_store key) = map (\<lambda>t. (t, t)) (filter (\<lambda>p. u - window < p) [])"
    by (simp add: seen_empty)
  then show ?thesis
    using check_all_verdicts[where store = empty_store and ps = "[]" and ?t0.0 = "-1" and ts = ts
        and key = key and window = window and limit = limit] assms
    by force
qed

lemma last_in_window:
  assumes "sorted_wrt (<) (ts :: int list)" and "k < length ts" and "n \<le> k" and "lo < ts ! (k - n)"
  shows "n \<le> length (filter (\<lambda>p. lo < p) (take k ts))"
proof -
  have "take k ts = take (k - n) ts @ drop (k - n) (take k ts)"
    by (metis append_take_drop_id take_take min.absorb1 diff_le_self)
  moreover have "\<forall>p\<in>set (drop (k - n) (take k ts)). lo < p"
  proof
    fix p assume "p \<in> set (drop (k - n) (take k ts))"
    then obtain i where i: "i < length (drop (k - n) (take k ts))" "p = drop (k - n) (take k ts) ! i"
      by (auto simp: in_set_conv_nth)
    then have p: "p = ts ! (k - n + i)" and ik: "k - n + i < k" using assms(2) by auto
    have "ts ! (k - n) \<le> ts ! (k - n + i)"
    proof (cases i)
      case 0 then show ?thesis by simp
    next
      case (Suc i')
      then have "ts ! (k - n) < ts ! (k - n + i)"
        using assms(1,2) ik by (intro sorted_wrt_nth_less) auto
      then show ?thesis by simp
    qed
    then show "lo < p" using p assms(4) by simp
  qed
  ultimately have "length (filter (\<lambda>p. lo < p) (take k ts))
       = length (filter (\<lambda>p. lo < p) (take (k - n) ts)) + length (drop (k - n) (take k ts))"
    by (metis filter_append length_append filter_True)
  then show ?thesis using assms(2,3) by simp
qed

lemma member_recorded:
  "\<exists>res store'.
     check_rate_limit (Some (Reachable store)) key limit window current
       = Inr (res, Some (Reachable store'))
     \<and> (current, current) \<in> set (members (store' key))"
  by (simp add: check_rate_limit_def Let_def zadd_member)

lemma first_out_of_window:
  assumes "0 < k" and "k \<le> length (ts :: int list)" and "ts ! 0 \<le> lo"
  shows "length (filter (\<lambda>p. lo < p) (take k ts)) < k"
proof -
  obtain t ts' where ts: "ts = t # ts'" using assms(1,2) by (cases ts) auto
  obtain j where k: "k = Suc j" using assms(1) by (cases k) auto
  have "length (filter (\<lambda>p. lo < p) (take j ts')) \<le> length (take j ts')"
    by (rule length_filter_le)
  then show ?thesis using assms(2,3) ts k by simp
qed

lemmas rl_defs = check_rate_limit_def empty_store_def no_key_def live_def
  zremrangebyscore_def zcard_def zadd_def Let_def

subsection \<open>Claim C1\<close>

text \<open>
  Claim C1 says that in any sequence of checks exactly \<open>L\<close> requests in a trailing
  \<open>W\<close>-second span are allowed and the next one is rejected, that a member is recorded
  for every request, also a rejected one, and that once \<open>W\<close> seconds have passed since
  the first request a new request is allowed again. As stated this fails: a rejected
  attempt is recorded too and keeps the window full. With limit 1 and window 10, the
  request at second 11 is rejected although the first request, at second 0, is more
  than 10 seconds old, because the rejected attempt at second 5 is still counted.
\<close>

theorem rejected_attempts_keep_window_full:
  "map_sum id fst
     (check_all (Some (Reachable empty_store)) ''rate_limit:p1:/v1/tasks/next'' 1 10 [0, 5, 11])
     = Inr [False, True, True]"
  by (simp add: rl_defs)

text \<open>
  Requests made within the same clock second share the member \<^verbatim>\<open>str(current)\<close>, so
  \<^verbatim>\<open>ZADD\<close> records them once: with limit 2 a burst of four requests in one second is
  allowed in full. The statement below about C1 is about runs with one request per
  second and says nothing on such bursts.
\<close>

lemma same_second_requests_share_one_member:
  "map_sum id fst
     (check_all (Some (Reachable empty_store)) ''rate_limit:p1:/v1/tasks/next'' 2 60
        [100, 100, 100, 100])
     = Inr [False, False, False, False]"
  by code_simp

text \<open>
  Claim C1, amended. The store is available, the key is fresh and the requests come
  at strictly increasing, non-negative clock seconds \<open>ts\<close>. Then the run returns a
  verdict for every request, and request \<open>k\<close> is rejected
  exactly when at least \<open>limit\<close> earlier requests, allowed or rejected, have a clock
  reading later than \<open>ts ! k - window\<close>. Hence the first \<open>limit\<close> requests are allowed;
  a request whose \<open>limit\<close> predecessors all lie in its trailing window is rejected;
  and after \<open>limit\<close> requests or fewer, a request made \<open>window\<close> seconds or more after
  the first one is allowed again. Whatever the verdict, after a check at \<open>current\<close>
  the set under the key holds a member for \<open>current\<close>.
\<close>

theorem sliding_window_distinct_seconds:
  assumes "sorted_wrt (<) ts" and "\<forall>t\<in>set ts. 0 \<le> t" and "k < length ts"
  shows "\<exists>bs pool'.
       check_all (Some (Reachable empty_store)) key limit window ts = Inr (bs, pool')
       \<and> length bs = length ts
       \<and> (bs ! k = (limit \<le> int (length (filter (\<lambda>p. ts ! k - window < p) (take k ts)))))
       \<and> (int k < limit \<longrightarrow> \<not> bs ! k)
       \<and> (0 < limit \<and> nat limit \<le> k \<and> ts ! k - window < ts ! (k - nat limit) \<longrightarrow> bs ! k)
       \<and> (0 < k \<and> int k \<le> limit \<and> ts ! 0 + window \<le> ts ! k \<longrightarrow> \<not> bs ! k)
       \<and> (\<forall>store current. \<exists>res store'.
             check_rate_limit (Some (Reachable store)) key limit window current
               = Inr (res, Some (Reachable store'))
             \<and> (current, current) \<in> set (members (store' key)))"
proof -
  from verdicts_from_empty[OF assms(1,2), of key limit window]
  obtain bs pool' where run:
      "check_all (Some (Reachable empty_store)) key limit window ts = Inr (bs, pool')"
      "length bs = length ts"
    and all: "\<forall>k<length ts. bs ! k
                 = (limit \<le> int (length (filter (\<lambda>p. ts ! k - window < p) (take k ts))))"
    by blast
  let ?n = "length (filter (\<lambda>p. ts ! k - window < p) (take k ts))"
  have rule: "bs ! k = (limit \<le> int ?n)" using all assms(3) by simp
  have le: "?n \<le> k"
    using length_filter_le[of "\<lambda>p. ts ! k - window < p" "take k ts"] assms(3) by simp
  have first: "int k < limit \<longrightarrow> \<not> bs ! k"
    using rule le by auto
  have next_one: "0 < limit \<and> nat limit \<le> k \<and> ts ! k - window < ts ! (k - nat limit) \<longrightarrow> bs ! k"
  proof
    assume h: "0 < limit \<and> nat limit \<le> k \<and> ts ! k - window < ts ! (k - nat limit)"
    then have "nat limit \<le> ?n"
      using last_in_window[OF assms(1) assms(3), of "nat limit" "ts ! k - window"] by simp
    then show "bs ! k" using rule h by simp
  qed
  have freed: "0 < k \<and> int k \<le> limit \<and> ts ! 0 + window \<le> ts ! k \<longrightarrow> \<not> bs ! k"
  proof
    assume h: "0 < k \<and> int k \<le> limit \<and> ts ! 0 + window \<le> ts ! k"
    then have "?n < k"
      using first_out_of_window[of k ts "ts ! k - window"] assms(3) by simp
    then show "\<not> bs ! k" using rule h by simp
  qed
  have recorded: "\<forall>store current. \<exists>res store'.
             check_rate_limit (Some (Reachable store)) key limit window current
               = Inr (res, Some (Reachable store'))
             \<and> (current, current) \<in> set (members (store' key))"
    using member_recorded by blast
  show ?thesis using run rule first next_one freed recorded by blast
qed

theorem sliding_window_distinct_seconds_witness:
  "sorted_wrt (<) [0, 1, 2, 11, 12 :: int]
   \<and> map_sum id fst
       (check_all (Some (Reachable empty_store)) ''rate_limit:p1:/v1/tasks/next'' 2 10
          [0, 1, 2, 11, 12])
       = Inr [False, False, True, False, False]
   \<and> map_sum id (\<lambda>r. fst r ! 2)
       (check_all (Some (Reachable empty_store)) ''rate_limit:p1:/v1/tasks/next'' 2 10
          [0, 1, 2, 11, 12])
       = Inr True
   \<and> map_sum id (\<lambda>r. fst r ! 2)
       (check_all (Some (Reachable empty_store)) ''rate_limit:p1:/v1/tasks/next'' 2 10 [0, 1, 11])
       = Inr False"
proof -
  let ?key = "''rate_limit:p1:/v1/tasks/next''"
  have s: "sorted_wrt (<) [0, 1, 2, 11, 12 :: int]" "\<forall>t\<in>set [0, 1, 2, 11, 12 :: int]. 0 \<le> t"
    and k: "2 < length [0, 1, 2, 11, 12 :: int]"
    by simp_all
  have s': "sorted_wrt (<) [0, 1, 11 :: int]" "\<forall>t\<in>set [0, 1, 11 :: int]. 0 \<le> t"
    and k': "2 < length [0, 1, 11 :: int]"
    by simp_all
  have a: "map_sum id fst
       (check_all (Some (Reachable empty_store)) ?key 2 10 [0, 1, 2, 11, 12])
       = Inr [False, False, True, False, False]"
    by (simp add: rl_defs)
  from sliding_window_distinct_seconds[OF s k, of ?key 2 10]
  obtain bs pool' where r:
      "check_all (Some (Reachable empty_store)) ?key 2 10 [0, 1, 2, 11, 12] = Inr (bs, pool')"
    and v: "0 < (2::int) \<and> nat 2 \<le> (2::nat) \<and> [0, 1, 2, 11, 12] ! 2 - 10 < [0, 1, 2, 11, 12 :: int] ! (2 - nat 2)
            \<longrightarrow> bs ! 2"
    by blast
  have "bs ! 2" using v by simp
  then have b: "map_sum id (\<lambda>r. fst r ! 2)
       (check_all (Some (Reachable empty_store)) ?key 2 10 [0, 1, 2, 11, 12]) = Inr True"
    using r by simp
  from sliding_window_distinct_seconds[OF s' k', of ?key 2 10]
  obtain bs' pool'' where r':
      "check_all (Some (Reachable empty_store)) ?key 2 10 [0, 1, 11] = Inr (bs', pool'')"
    and v': "0 < (2::nat) \<and> int 2 \<le> (2::int) \<and> [0, 1, 11] ! 0 + 10 \<le> [0, 1, 11 :: int] ! 2
            \<longrightarrow> \<not> bs' ! 2"
    by blast
  have "\<not> bs' ! 2" using v' by simp
  then have c: "map_sum id (\<lambda>r. fst r ! 2)
       (check_all (Some (Reachable empty_store)) ?key 2 10 [0, 1, 11]) = Inr False"
    using r' by simp
  show ?thesis using s(1) a b c by blast
qed

subsection \<open>Claim C7\<close>

text \<open>
  Claim C7 says that the check allows the request whenever the shared store cannot be
  reached. The code does so when no pool was created (\<^verbatim>\<open>redis_pool is None\<close>, with
  the comment ``If Redis is not available, allow the request''): it returns not
  limited, with the limit as the remaining count and the window as the reset time. With
  a pool whose server cannot be reached \<^verbatim>\<open>pipeline.execute()\<close> raises
  \<^verbatim>\<open>ConnectionError\<close>, which nothing handles: the request fails.
\<close>

theorem unreachable_store_raises:
  "check_rate_limit (Some Unreachable) key limit window current = Inl ConnectionError
   \<and> check_rate_limit None key limit window current = Inr ((False, limit, window), None)"
  by (simp add: check_rate_limit_def)

theorem unreachable_store_raises_witness:
  "check_rate_limit (Some Unreachable) ''rate_limit:anonymous:/v1/tasks/next'' 100 60 1700000000
     = Inl ConnectionError
   \<and> check_rate_limit None ''rate_limit:anonymous:/v1/tasks/next'' 100 60 1700000000
     = Inr ((False, 100, 60), None)"
  using unreachable_store_raises[of "''rate_limit:anonymous:/v1/tasks/next''" 100 60 1700000000]
  by simp

subsection \<open>Claim C8\<close>

text \<open>
  Claim C8 says that every check returns \<open>window - (now mod window)\<close> as reset time when
  \<open>window > 60\<close>. The check that finds no pool returns the window unchanged,
  whatever its size.
\<close>

theorem reset_time_fail_open_counterexample:
  "map_sum id (\<lambda>r. snd (snd (fst r))) (check_rate_limit None ''k'' 100 3600 1700000000)
     \<noteq> Inr (3600 - 1700000000 mod 3600)"
  by (simp add: check_rate_limit_def)

text \<open>
  Claim C8, amended. When the store is available the check returns, and its reset time
  is \<open>window - (current mod window)\<close> for a window above 60 seconds and the window
  itself otherwise; when no pool was created it returns the window itself.
\<close>

theorem reset_time_by_store:
  "(\<exists>limited remaining pool'.
      check_rate_limit (Some (Reachable store)) key limit window current
        = Inr ((limited, remaining,
                if window > 60 then window - current mod window else window), pool'))
   \<and> (\<exists>limited remaining pool'.
      check_rate_limit None key limit window current = Inr ((limited, remaining, window), pool'))"
  by (auto simp: check_rate_limit_def Let_def)

theorem reset_time_by_store_witness:
  "map_sum id (\<lambda>r. snd (snd (fst r)))
     (check_rate_limit (Some (Reachable empty_store)) ''k'' 100 3600 1700000000) = Inr 2800
   \<and> map_sum id (\<lambda>r. snd (snd (fst r)))
     (check_rate_limit (Some (Reachable empty_store)) ''k'' 100 60 1700000000) = Inr 60
   \<and> map_sum id (\<lambda>r. snd (snd (fst r)))
     (check_rate_limit None ''k'' 100 3600 1700000000) = Inr 3600"
  using reset_time_by_store[of empty_store "''k''" 100 3600 1700000000]
    reset_time_by_store[of empty_store "''k''" 100 60 1700000000]
  by auto

section \<open>Properties of the task pipeline\<close>

subsection \<open>The exponent of a float\<close>

lemma bits_of_nat:
  assumes "0 < n"
  shows "0 < floorlog 2 n"
    and "(2::rat) ^ (floorlog 2 n - 1) \<le> of_nat n"
    and "(of_nat n :: rat) + 1 \<le> 2 ^ floorlog 2 n"
proof -
  let ?k = "floorlog 2 n"
  have b: "2 ^ (?k - 1) \<le> n" "n < 2 ^ ?k"
    using floorlog_bounds[of n 2] assms by simp_all
  show "0 < ?k" using b(2) assms by (cases ?k) auto
  have "(of_nat (2 ^ (?k - 1)) :: rat) \<le> of_nat n"
    using b(1) by (simp only: of_nat_le_iff)
  then show "(2::rat) ^ (?k - 1) \<le> of_nat n" by simp
  have "Suc n \<le> 2 ^ ?k" using b(2) by simp
  then have "(of_nat (Suc n) :: rat) \<le> of_nat (2 ^ ?k)"
    by (simp only: of_nat_le_iff)
  then show "(of_nat n :: rat) + 1 \<le> 2 ^ ?k" by simp
qed


lemma binary_exponent_bounds:
  assumes "0 < x"
  shows "pow2 (binary_exponent x) \<le> x \<and> x < pow2 (binary_exponent x + 1)"
proof (cases "1 \<le> x")
  case True
  define n where "n = nat \<lfloor>x\<rfloor>"
  define k where "k = floorlog 2 n"
  have n: "0 < n" using True by (simp add: n_def)
  note b = bits_of_nat[OF n, folded k_def]
  have e: "binary_exponent x = int k - 1"
    using True by (simp add: binary_exponent_def n_def k_def)
  have fl: "of_int \<lfloor>x\<rfloor> \<le> x" "x < of_int \<lfloor>x\<rfloor> + 1" by linarith+
  have "(of_nat n :: rat) = of_int \<lfloor>x\<rfloor>" using True by (simp add: n_def)
  then have nx: "of_nat n \<le> x" "x < of_nat n + 1" using fl by simp_all
  have "(2::rat) ^ (k - 1) \<le> x" using b(2) nx(1) by (rule order_trans)
  moreover have "pow2 (int k - 1) = 2 ^ (k - 1)"
    using b(1) by (simp add: pow2_def nat_diff_distrib')
  ultimately have lo: "pow2 (int k - 1) \<le> x" by simp
  have "x < (2::rat) ^ k" using nx(2) b(3) by (rule less_le_trans)
  moreover have "pow2 (int k - 1 + 1) = 2 ^ k" by (simp add: pow2_def)
  ultimately have hi: "x < pow2 (int k - 1 + 1)" by simp
  show ?thesis using lo hi e by simp
next
  case False
  define y where "y = 1 / x"
  define m where "m = \<lceil>y\<rceil>"
  define j where "j = nat (m - 1)"
  define k where "k = floorlog 2 j"
  have x1: "x < 1" using False by simp
  have y: "1 < y" using x1 assms by (simp add: y_def)
  have my: "y \<le> of_int m" "of_int m - 1 < y" unfolding m_def by linarith+
  have m: "2 \<le> m" using y my(1) by linarith
  have j: "0 < j" using m by (simp add: j_def)
  have jm: "(of_nat j :: rat) = of_int m - 1" using m by (simp add: j_def)
  note b = bits_of_nat[OF j, folded k_def]
  have e: "binary_exponent x = - int k"
    using False by (simp add: binary_exponent_def y_def m_def j_def k_def)
  have "of_int m \<le> (2::rat) ^ k" using b(3) jm by simp
  with my(1) have yk: "y \<le> 2 ^ k" by (rule order_trans)
  have xy: "x = 1 / y" using assms by (simp add: y_def)
  have ypos: "0 < y" using y by simp
  have "1 / 2 ^ k \<le> 1 / y" using yk ypos by (simp add: frac_le)
  then have "1 / 2 ^ k \<le> x" using xy by simp
  moreover have "pow2 (- int k) = 1 / 2 ^ k" using b(1) by (simp add: pow2_def)
  ultimately have lo: "pow2 (- int k) \<le> x" by simp
  have "(2::rat) ^ (k - 1) \<le> of_int m - 1" using b(2) jm by simp
  then have ky: "(2::rat) ^ (k - 1) < y" using my(2) by (rule le_less_trans)
  have "1 / y < 1 / 2 ^ (k - 1)" using ky by (simp add: frac_less2)
  then have x': "x < 1 / 2 ^ (k - 1)" using xy by simp
  have hi: "x < pow2 (- int k + 1)"
  proof (cases "k = 1")
    case True
    then show ?thesis using x1 by (simp add: pow2_def)
  next
    case False
    then have "1 < k" using b(1) by simp
    then have "pow2 (- int k + 1) = 1 / 2 ^ (k - 1)"
      by (simp add: pow2_def nat_diff_distrib')
    then show ?thesis using x' by simp
  qed
  show ?thesis using lo hi e by simp
qed

subsection \<open>Float literals and the two products\<close>

lemma float_literals:
  "py_float 0 = 0" "py_float 1 = 1"
  "py_float (2 / 10) = 3602879701896397 / 18014398509481984"
  "py_float (3 / 10) = 5404319552844595 / 18014398509481984"
  "py_float (4 / 10) = 3602879701896397 / 9007199254740992"
  "py_float (5 / 10) = 1 / 2"
  "py_float (7 / 10) = 3152519739159347 / 4503599627370496"
  "py_float (72 / 100) = 3242591731706757 / 4503599627370496"
  "py_float (8 / 10) = 3602879701896397 / 4503599627370496"
  "py_float (89999 / 100000) = 8106389257274345 / 9007199254740992"
  "py_float (9 / 10) = 8106479329266893 / 9007199254740992"
  by code_simp+

lemma float_products:
  "float_mul (py_float (8 / 10)) (py_float (5 / 10)) = 3602879701896397 / 9007199254740992"
  "float_mul (py_float (8 / 10)) (py_float (9 / 10)) = 6485183463413515 / 9007199254740992"
  by code_simp+

lemma one_ulp_above: "float_mul (py_float (8 / 10)) (py_float (9 / 10)) = py_float (72 / 100) + 1 / 2 ^ 53"
  by code_simp

lemma half_is_exact: "float_mul (py_float (8 / 10)) (py_float (5 / 10)) = py_float (4 / 10)"
  by code_simp

subsection \<open>The completion counter as text\<close>

lemma str_nat_nonempty: "str_nat n \<noteq> []"
  by (subst str_nat.simps) simp

lemma digit_zero: "d < 10 \<Longrightarrow> (digit_char d = CHR ''0'') = (d = 0)"
  by (auto simp: digit_char_def eval_nat_numeral less_Suc_eq)

lemma str_nat_zero: "(str_nat n = ''0'') = (n = 0)"
proof (cases "n < 10")
  case True
  then show ?thesis by (subst str_nat.simps) (simp add: digit_zero)
next
  case False
  then have "length (str_nat n) = length (str_nat (n div 10)) + 1"
    by (subst str_nat.simps) simp
  moreover have "0 < length (str_nat (n div 10))" using str_nat_nonempty by simp
  ultimately have "length (str_nat n) \<noteq> length ''0''" by simp
  then have "str_nat n \<noteq> ''0''" by metis
  then show ?thesis using False by simp
qed

lemma str_int_zero: "(str_int i = ''0'') = (i = 0)"
proof (cases "i < 0")
  case True
  then show ?thesis by (simp add: str_int_def)
next
  case False
  then show ?thesis by (simp add: str_int_def str_nat_zero)
qed

lemma counter_is_zero:
  "(redis_get_str m now k = Some ''0'') = (redis_get m now k = Some 0)"
  by (cases "redis_get m now k") (simp_all add: redis_get_str_def str_int_zero)

subsection \<open>What each service returns and writes\<close>

lemma lease_key_differs: "''assigned:'' @ u \<noteq> u"
proof
  assume "''assigned:'' @ u = u"
  then have "length (''assigned:'' @ u) = length u" by (rule arg_cong)
  then show False by simp
qed

lemma session_id_is_no_json: "\<not> can_start_json (''sess_'' @ x)" "''sess_'' @ x \<noteq> []"
  by (simp_all add: can_start_json_def json_whitespace_def)

lemma get_next_task_found:
  assumes "redis_get (profiles redis) now (''user:profile:'' @ publisher_id @ '':'' @ session_id) = Some p"
  shows "\<exists>task redis'.
           get_next_task redis now uuid4 session_id publisher_id language website_category previous_task_id
             = (Some task, redis')
           \<and> tr_task_id task = uuid4
           \<and> tr_complexity_level task = min (up_max_complexity p) 3
           \<and> tr_golden_set task
               = (up_expertise_level p = ''beginner''
                  \<and> redis_get (counters redis) now (''user:tasks_completed:'' @ session_id) = Some 0)
           \<and> profiles redis' = profiles redis \<and> counters redis' = counters redis
           \<and> tasks redis' (''task:'' @ uuid4)
               = Some (TaskDoc \<lparr>td_task_id = uuid4, td_task_type = ''vqa'',
                        td_golden_set = tr_golden_set task,
                        td_expected_answer = (if tr_golden_set task then Some ''Blue'' else None),
                        td_publisher_id = publisher_id, td_session_id = session_id,
                        td_complexity_level = tr_complexity_level task,
                        td_created_at = now\<rparr>, Some (now + 3600))
           \<and> tasks redis' (''task:'' @ ''assigned:'' @ uuid4) = Some (Lease session_id, Some (now + 300))"
  using assms lease_key_differs[of uuid4]
  by (simp add: get_next_task_def Let_def redis_get_def redis_set_def counter_is_zero[unfolded redis_get_def])

lemma get_next_task_missing:
  assumes "redis_get (profiles redis) now (''user:profile:'' @ publisher_id @ '':'' @ session_id) = None"
  shows "get_next_task redis now uuid4 session_id publisher_id language website_category previous_task_id
           = (None, redis)"
  using assms by (simp add: get_next_task_def)

lemma session_initialised:
  assumes "initialize_user_session redis t0 uuid_hex req = (s, redis')"
    and "t0 \<le> now" and "now < t0 + 86400"
  shows "sr_session_id s = ''sess_'' @ take 12 uuid_hex"
    and "\<exists>p. redis_get (profiles redis') now
              (''user:profile:'' @ sir_publisher_id req @ '':'' @ sr_session_id s) = Some p
            \<and> up_expertise_level p = ''beginner'' \<and> up_max_complexity p = 2"
    and "counters redis' (''user:tasks_completed:'' @ sr_session_id s) = Some (0, Some (t0 + 86400))"
  using assms by (auto simp: initialize_user_session_def Let_def redis_get_def redis_set_def)

lemma validate_found:
  assumes "redis_get (tasks redis) now (''task:'' @ task_id) = Some (TaskDoc td)"
  shows "\<exists>v redis'.
      validate_label_quality loads redis now uuid_hex task_id session_id publisher_id response
        time_spent_ms task_type validation_type = Inr (v, redis')
      \<and> vr_validation_method v = validation_type
      \<and> vr_confidence v = (if validation_type = ''golden_set'' then ''high'' else ''medium'')
      \<and> (vr_quality_score v, vr_issues_detected v) =
          (if validation_type = ''golden_set'' \<and> td_golden_set td then
             (if map_option RespStr (td_expected_answer td) = Some response
              then (py_float 1, [])
              else (py_float (3 / 10), [''incorrect_golden_set_answer'']))
           else if validation_type = ''consensus'' then
             (if time_spent_ms < 500
              then (float_mul (py_float (8 / 10)) (py_float (5 / 10)), [''suspiciously_fast_response''])
              else if time_spent_ms > 30000
              then (float_mul (py_float (8 / 10)) (py_float (9 / 10)), [''slow_response''])
              else (py_float (8 / 10), []))
           else (py_float (8 / 10), []))
      \<and> tasks redis' = tasks redis \<and> counters redis' = counters redis
      \<and> profiles redis' = profiles redis \<and> submissions redis' = submissions redis
      \<and> redis_get (validations redis') now (''validation:'' @ vr_validation_id v)
          = Some \<lparr>vd_validation_id = vr_validation_id v, vd_task_id = task_id,
                   vd_session_id = session_id, vd_publisher_id = publisher_id,
                   vd_response = response, vd_time_spent_ms = time_spent_ms,
                   vd_quality_score = vr_quality_score v,
                   vd_validation_method = validation_type,
                   vd_issues_detected = vr_issues_detected v,
                   vd_validated_at = now\<rparr>"
  using assms
  by (cases "td_expected_answer td")
     (auto simp: validate_label_quality_def Let_def not_task_json_def json_loads_def dict_get_def
        redis_get_def redis_set_def)

lemma validate_missing:
  assumes "not_task_json (redis_get (tasks redis) now (''task:'' @ task_id))"
  shows "validate_label_quality loads redis now uuid_hex task_id session_id publisher_id response
        time_spent_ms task_type validation_type
      = Inr (\<lparr>vr_validation_id = ''val_'' @ take 10 uuid_hex,
           vr_quality_score = py_float (2 / 10),
           vr_validation_method = ''unknown'',
           vr_issues_detected = [''task_not_found''],
           vr_confidence = ''low'',
           vr_feedback = ''Task not found or expired''\<rparr>, redis)"
  using assms by (simp add: validate_label_quality_def)

lemma validate_lease:
  assumes "redis_get (tasks redis) now (''task:'' @ task_id) = Some (Lease s)"
    and "s \<noteq> []" and "\<not> can_start_json s"
  shows "validate_label_quality loads redis now uuid_hex task_id session_id publisher_id response
        time_spent_ms task_type validation_type = Inl JSONDecodeError"
  using assms by (simp add: validate_label_quality_def not_task_json_def json_loads_def)

lemma submit_found:
  assumes "redis_get (tasks redis) now (''task:'' @ task_id) = Some (TaskDoc td)"
  shows "\<exists>res redis' v redis1.
      submit_task_result loads redis now uuid_hex task_id sub = Inr (res, redis')
      \<and> validate_label_quality loads redis now uuid_hex task_id (sub_session_id sub)
           (sub_publisher_id sub) (sub_response sub) (sub_time_spent_ms sub) (td_task_type td)
           (if td_golden_set td then ''golden_set'' else ''consensus'') = Inr (v, redis1)
      \<and> sbr_success res
      \<and> sbr_quality_score res = vr_quality_score v
      \<and> sbr_reward res = \<lparr>rw_type = ''content_access'',
                            rw_duration_seconds = Some (reward_duration (vr_quality_score v)),
                            rw_points = None, rw_description = None\<rparr>
      \<and> profiles redis' = profiles redis1
      \<and> tasks redis' = tasks redis1
      \<and> counters redis' = redis_incr (counters redis1) now
                            (''user:tasks_completed:'' @ sub_session_id sub)"
proof -
  let ?vt = "if td_golden_set td then ''golden_set'' else ''consensus''"
  from validate_found[OF assms, of loads uuid_hex "sub_session_id sub" "sub_publisher_id sub"
      "sub_response sub" "sub_time_spent_ms sub" "td_task_type td" ?vt]
  obtain v redis1 where v:
    "validate_label_quality loads redis now uuid_hex task_id (sub_session_id sub)
       (sub_publisher_id sub) (sub_response sub) (sub_time_spent_ms sub) (td_task_type td) ?vt
       = Inr (v, redis1)"
    by blast
  show ?thesis
    using assms v
    by (simp add: submit_task_result_def Let_def not_task_json_def json_loads_def dict_get_def)
qed

lemma submit_missing:
  assumes "not_task_json (redis_get (tasks redis) now (''task:'' @ task_id))"
  shows "submit_task_result loads redis now uuid_hex task_id sub
      = Inr (\<lparr>sbr_success = False,
           sbr_reward = \<lparr>rw_type = ''none'', rw_duration_seconds = None,
                          rw_points = None, rw_description = None\<rparr>,
           sbr_quality_score = py_float 0,
           sbr_next_task_available = True\<rparr>, redis)"
  using assms by (simp add: submit_task_result_def)

lemma submit_lease:
  assumes "redis_get (tasks redis) now (''task:'' @ task_id) = Some (Lease s)"
    and "s \<noteq> []" and "\<not> can_start_json s"
  shows "submit_task_result loads redis now uuid_hex task_id sub = Inl JSONDecodeError"
  using assms by (simp add: submit_task_result_def not_task_json_def json_loads_def)

lemma submit_store:
  assumes "redis_get (tasks redis) now (''task:'' @ task_id) = Some (TaskDoc td)"
  shows "\<exists>res redis'.
      submit_task_result loads redis now uuid_hex task_id sub = Inr (res, redis')
      \<and> sbr_success res
      \<and> profiles redis' = profiles redis
      \<and> counters redis' = redis_incr (counters redis) now
                            (''user:tasks_completed:'' @ sub_session_id sub)"
proof -
  let ?vt = "if td_golden_set td then ''golden_set'' else ''consensus''"
  from submit_found[OF assms, of loads uuid_hex sub]
  obtain res redis' v redis1 where s:
    "submit_task_result loads redis now uuid_hex task_id sub = Inr (res, redis')"
    "validate_label_quality loads redis now uuid_hex task_id (sub_session_id sub) (sub_publisher_id sub)
           (sub_response sub) (sub_time_spent_ms sub) (td_task_type td) ?vt = Inr (v, redis1)"
    "sbr_success res" "profiles redis' = profiles redis1"
    "counters redis' = redis_incr (counters redis1) now
                            (''user:tasks_completed:'' @ sub_session_id sub)"
    by blast
  from validate_found[OF assms, of loads uuid_hex "sub_session_id sub" "sub_publisher_id sub"
      "sub_response sub" "sub_time_spent_ms sub" "td_task_type td" ?vt]
  obtain v' redis1' where v:
    "validate_label_quality loads redis now uuid_hex task_id (sub_session_id sub) (sub_publisher_id sub)
           (sub_response sub) (sub_time_spent_ms sub) (td_task_type td) ?vt = Inr (v', redis1')"
    "counters redis1' = counters redis" "profiles redis1' = profiles redis"
    by blast
  have "redis1' = redis1" using s(2) v(1) by simp
  then show ?thesis using s v by auto
qed

lemma lease_read_as_task_record:
  assumes "redis_get (profiles redis) t1 (''user:profile:'' @ publisher_id @ '':'' @ session_id) = Some p"
    and "session_id \<noteq> []" and "\<not> can_start_json session_id"
    and "t1 \<le> t2" and "t2 \<le> t1 + 300"
  shows "submit_task_result loads
           (snd (get_next_task redis t1 uuid4 session_id publisher_id language website_category
                   previous_task_id))
           t2 uuid_hex (''assigned:'' @ uuid4) sub = Inl JSONDecodeError"
    and "validate_label_quality loads
           (snd (get_next_task redis t1 uuid4 session_id publisher_id language website_category
                   previous_task_id))
           t2 uuid_hex (''assigned:'' @ uuid4) sid pid response ms task_type validation_type
           = Inl JSONDecodeError"
proof -
  let ?r = "snd (get_next_task redis t1 uuid4 session_id publisher_id language website_category
                   previous_task_id)"
  from get_next_task_found[OF assms(1), of uuid4 language website_category previous_task_id]
  have "tasks ?r (''task:'' @ ''assigned:'' @ uuid4) = Some (Lease session_id, Some (t1 + 300))"
    by auto
  then have l: "redis_get (tasks ?r) t2 (''task:'' @ ''assigned:'' @ uuid4) = Some (Lease session_id)"
    using assms(5) by (simp add: redis_get_def)
  show "submit_task_result loads ?r t2 uuid_hex (''assigned:'' @ uuid4) sub = Inl JSONDecodeError"
    by (rule submit_lease[OF l assms(2,3)])
  show "validate_label_quality loads ?r t2 uuid_hex (''assigned:'' @ uuid4) sid pid response ms
          task_type validation_type = Inl JSONDecodeError"
    by (rule validate_lease[OF l assms(2,3)])
qed

lemma batch_tasks:
  "tb_tasks (fst (get_task_batch redis now uuids publisher_id count language category complexity))
     = map (\<lambda>i. \<lparr>ts_task_id = uuids i, ts_task_type = ''vqa'',
                  ts_content = empty_content
                    \<lparr>tc_image_url := Some (''https://storage.hotlabel.io/samples/image''
                         @ str_nat i @ ''.jpg''),
                     tc_question := Some ''What color is the car in this image?''\<rparr>,
                  ts_options = Some [''Red'', ''Blue'', ''Green'', ''Yellow''],
                  ts_complexity_level =
                    (if complexity = Some ''medium'' then 2
                     else if complexity = Some ''high'' then 3 else 1)\<rparr>)
         [0 ..< nat count]"
  by (simp add: get_task_batch_def Let_def)

subsection \<open>The sample store\<close>

lemma sample_tasks:
  "redis_get (tasks sample_redis) 10 (''task:'' @ ''t-golden'') = Some (TaskDoc golden_task)"
  "redis_get (tasks sample_redis) 10 (''task:'' @ ''t-consensus'') = Some (TaskDoc consensus_task)"
  "redis_get (tasks sample_redis) 10 (''task:'' @ ''t-unknown'') = None"
  "redis_get (tasks sample_redis) 4000 (''task:'' @ ''t-golden'') = None"
  by (simp_all add: sample_redis_def empty_redis_def redis_get_def redis_set_def)

lemma sample_profile:
  "redis_get (profiles sample_redis) 10 (''user:profile:'' @ ''pub_1'' @ '':'' @ ''sess_1'')
     = Some \<lparr>up_language = ''en'', up_expertise_level = ''beginner'',
              up_task_preferences = [''vqa''], up_max_complexity = 2\<rparr>"
  "redis_get (counters sample_redis) 10 (''user:tasks_completed:'' @ ''sess_1'') = Some 0"
  "redis_get (profiles sample_redis) 10 (''user:profile:'' @ ''pub_1'' @ '':'' @ ''sess_2'') = None"
  by (simp_all add: sample_redis_def empty_redis_def redis_get_def redis_set_def)

subsection \<open>Claim C2\<close>

text \<open>
  Claim C2: whenever the user profile exists, the selector returns a task whose
  \<^verbatim>\<open>golden_set\<close> flag is true exactly when the profile's expertise level is
  \<^verbatim>\<open>beginner\<close> and the session's completion counter is 0. In particular, in a
  session just created by \<^verbatim>\<open>initialize_user_session\<close> the first selected task is a
  golden-set task, and the selection after a submission of that task, which increments
  the counter, is not, with the same language, category and previous task. The times
  lie within the lifetime of the session (24 hours) and of the task record (1 hour).
\<close>

theorem golden_set_injection_rule:
  assumes "redis_get (profiles redis) now (''user:profile:'' @ publisher_id @ '':'' @ session_id) = Some p"
  shows "(\<exists>task redis'.
            get_next_task redis now uuid4 session_id publisher_id language website_category previous_task_id
              = (Some task, redis')
            \<and> tr_golden_set task
                = (up_expertise_level p = ''beginner''
                   \<and> redis_get (counters redis) now (''user:tasks_completed:'' @ session_id) = Some 0))
       \<and> (\<forall>loads r0 t0 hex req t1 u1 t2 hex2 resp ms t3 u3.
             t0 \<le> t1 \<and> t1 \<le> t2 \<and> t2 < t1 + 3600 \<and> t2 \<le> t3 \<and> t3 < t0 + 86400
             \<longrightarrow> (\<exists>s r1 task1 r2 res r3 task2 r4.
                   initialize_user_session r0 t0 hex req = (s, r1)
                   \<and> get_next_task r1 t1 u1 (sr_session_id s) (sir_publisher_id req)
                        language website_category previous_task_id = (Some task1, r2)
                   \<and> submit_task_result loads r2 t2 hex2 u1
                        \<lparr>sub_session_id = sr_session_id s, sub_publisher_id = sir_publisher_id req,
                         sub_response = resp, sub_time_spent_ms = ms\<rparr> = Inr (res, r3)
                   \<and> get_next_task r3 t3 u3 (sr_session_id s) (sir_publisher_id req)
                        language website_category previous_task_id = (Some task2, r4)
                   \<and> tr_golden_set task1 \<and> sbr_success res \<and> \<not> tr_golden_set task2))"
proof -
  have rule: "\<exists>task redis'.
            get_next_task redis now uuid4 session_id publisher_id language website_category previous_task_id
              = (Some task, redis')
            \<and> tr_golden_set task
                = (up_expertise_level p = ''beginner''
                   \<and> redis_get (counters redis) now (''user:tasks_completed:'' @ session_id) = Some 0)"
    using get_next_task_found[OF assms, of uuid4 language website_category previous_task_id] by blast
  have scenario: "\<exists>s r1 task1 r2 res r3 task2 r4.
                   initialize_user_session r0 t0 hex req = (s, r1)
                   \<and> get_next_task r1 t1 u1 (sr_session_id s) (sir_publisher_id req)
                        language website_category previous_task_id = (Some task1, r2)
                   \<and> submit_task_result loads r2 t2 hex2 u1
                        \<lparr>sub_session_id = sr_session_id s, sub_publisher_id = sir_publisher_id req,
                         sub_response = resp, sub_time_spent_ms = ms\<rparr> = Inr (res, r3)
                   \<and> get_next_task r3 t3 u3 (sr_session_id s) (sir_publisher_id req)
                        language website_category previous_task_id = (Some task2, r4)
                   \<and> tr_golden_set task1 \<and> sbr_success res \<and> \<not> tr_golden_set task2"
    if times: "t0 \<le> t1 \<and> t1 \<le> t2 \<and> t2 < t1 + 3600 \<and> t2 \<le> t3 \<and> t3 < t0 + 86400"
    for loads r0 t0 hex req t1 u1 t2 hex2 resp ms t3 u3
  proof -
    obtain s r1 where init: "initialize_user_session r0 t0 hex req = (s, r1)"
      by (cases "initialize_user_session r0 t0 hex req") auto
    let ?sid = "sr_session_id s" and ?pub = "sir_publisher_id req"
    let ?pkey = "''user:profile:'' @ ?pub @ '':'' @ ?sid"
    let ?ckey = "''user:tasks_completed:'' @ ?sid"
    let ?sub = "\<lparr>sub_session_id = ?sid, sub_publisher_id = ?pub,
                   sub_response = resp, sub_time_spent_ms = ms\<rparr>"
    have t1: "t0 \<le> t1" "t1 < t0 + 86400" and t3: "t0 \<le> t3" "t3 < t0 + 86400"
      using times by auto
    obtain p1 where p1: "redis_get (profiles r1) t1 ?pkey = Some p1"
        "up_expertise_level p1 = ''beginner''"
      using session_initialised(2)[OF init t1] by blast
    obtain p3 where p3: "redis_get (profiles r1) t3 ?pkey = Some p3"
      using session_initialised(2)[OF init t3] by blast
    have c1: "counters r1 ?ckey = Some (0, Some (t0 + 86400))"
      by (rule session_initialised(3)[OF init t1])
    then have c1': "redis_get (counters r1) t1 ?ckey = Some 0"
      using t1 by (simp add: redis_get_def)
    from get_next_task_found[OF p1(1), of u1 language website_category previous_task_id]
    obtain task1 r2 where n1:
      "get_next_task r1 t1 u1 ?sid ?pub language website_category previous_task_id = (Some task1, r2)"
      "tr_golden_set task1" "profiles r2 = profiles r1" "counters r2 = counters r1"
      and "\<exists>td. tasks r2 (''task:'' @ u1) = Some (TaskDoc td, Some (t1 + 3600))"
      using p1(2) c1' by auto
    then obtain td where "redis_get (tasks r2) t2 (''task:'' @ u1) = Some (TaskDoc td)"
      using times by (auto simp: redis_get_def)
    from submit_store[OF this, of loads hex2 ?sub]
    obtain res r3 where sb: "submit_task_result loads r2 t2 hex2 u1 ?sub = Inr (res, r3)"
      "sbr_success res"
      "profiles r3 = profiles r2" "counters r3 = redis_incr (counters r2) t2 ?ckey"
      by auto
    have "counters r3 ?ckey = Some (1, Some (t0 + 86400))"
      using sb(4) n1(4) c1 times by (simp add: redis_incr_def)
    then have c3: "redis_get (counters r3) t3 ?ckey = Some 1"
      using t3 by (simp add: redis_get_def)
    have "redis_get (profiles r3) t3 ?pkey = Some p3"
      using p3 sb(3) n1(3) by simp
    from get_next_task_found[OF this, of u3 language website_category previous_task_id]
    obtain task2 r4 where n2:
      "get_next_task r3 t3 u3 ?sid ?pub language website_category previous_task_id = (Some task2, r4)"
      "\<not> tr_golden_set task2"
      using c3 by auto
    show ?thesis using init n1(1,2) sb(1,2) n2 by blast
  qed
  show ?thesis by (intro conjI allI impI, rule rule, erule scenario)
qed

theorem golden_set_injection_rule_witness:
  "redis_get (profiles sample_redis) 10 (''user:profile:'' @ ''pub_1'' @ '':'' @ ''sess_1'')
     = Some \<lparr>up_language = ''en'', up_expertise_level = ''beginner'',
              up_task_preferences = [''vqa''], up_max_complexity = 2\<rparr>
   \<and> map_option tr_golden_set
        (fst (get_next_task sample_redis 10 ''2f1e4fc0-81fd-4f4f-9d3a-6a2c5e1b7a10'' ''sess_1'' ''pub_1''
           None None None)) = Some True"
proof -
  have p: "redis_get (profiles sample_redis) 10 (''user:profile:'' @ ''pub_1'' @ '':'' @ ''sess_1'')
     = Some \<lparr>up_language = ''en'', up_expertise_level = ''beginner'',
              up_task_preferences = [''vqa''], up_max_complexity = 2\<rparr>"
    by (rule sample_profile)
  show ?thesis
    using p sample_profile(2)
      golden_set_injection_rule[OF p, of "''2f1e4fc0-81fd-4f4f-9d3a-6a2c5e1b7a10''" None None None]
    by auto
qed

subsection \<open>Claim C3\<close>

text \<open>
  Claim C3: for a submission against an existing golden-set assignment, validated as
  \<^verbatim>\<open>submit_task_result\<close> does with the method \<^verbatim>\<open>golden_set\<close>, the quality score is
  the float 1.0 with no issue when the response equals the stored expected answer, and
  otherwise the float 0.3 with the issue \<^verbatim>\<open>incorrect_golden_set_answer\<close>; the
  confidence is \<^verbatim>\<open>high\<close>, and the submission response carries the same score.
\<close>

theorem golden_set_scoring:
  assumes "redis_get (tasks redis) now (''task:'' @ task_id) = Some (TaskDoc td)"
    and "td_golden_set td"
  shows "\<exists>v redis1 res redis'.
      validate_label_quality loads redis now uuid_hex task_id (sub_session_id sub)
        (sub_publisher_id sub) (sub_response sub) (sub_time_spent_ms sub) (td_task_type td)
        ''golden_set'' = Inr (v, redis1)
      \<and> submit_task_result loads redis now uuid_hex task_id sub = Inr (res, redis')
      \<and> sbr_quality_score res = vr_quality_score v
      \<and> vr_validation_method v = ''golden_set''
      \<and> vr_confidence v = ''high''
      \<and> (map_option RespStr (td_expected_answer td) = Some (sub_response sub)
           \<longrightarrow> vr_quality_score v = py_float 1 \<and> vr_issues_detected v = [])
      \<and> (map_option RespStr (td_expected_answer td) \<noteq> Some (sub_response sub)
           \<longrightarrow> vr_quality_score v = py_float (3 / 10)
               \<and> vr_issues_detected v = [''incorrect_golden_set_answer''])"
proof -
  from validate_found[OF assms(1), of loads uuid_hex "sub_session_id sub" "sub_publisher_id sub"
      "sub_response sub" "sub_time_spent_ms sub" "td_task_type td" "''golden_set''"]
  obtain v redis1 where v:
    "validate_label_quality loads redis now uuid_hex task_id (sub_session_id sub)
        (sub_publisher_id sub) (sub_response sub) (sub_time_spent_ms sub) (td_task_type td)
        ''golden_set'' = Inr (v, redis1)"
    "vr_validation_method v = ''golden_set''" "vr_confidence v = ''high''"
    "(vr_quality_score v, vr_issues_detected v) =
       (if map_option RespStr (td_expected_answer td) = Some (sub_response sub)
        then (py_float 1, [])
        else (py_float (3 / 10), [''incorrect_golden_set_answer'']))"
    using assms(2) by auto
  from submit_found[OF assms(1), of loads uuid_hex sub] v(1) assms(2)
  obtain res redis' where r:
    "submit_task_result loads redis now uuid_hex task_id sub = Inr (res, redis')"
    "sbr_quality_score res = vr_quality_score v"
    by auto
  have "map_option RespStr (td_expected_answer td) = Some (sub_response sub)
           \<longrightarrow> vr_quality_score v = py_float 1 \<and> vr_issues_detected v = []"
    using v(4) by (auto split: if_splits)
  moreover have "map_option RespStr (td_expected_answer td) \<noteq> Some (sub_response sub)
           \<longrightarrow> vr_quality_score v = py_float (3 / 10)
               \<and> vr_issues_detected v = [''incorrect_golden_set_answer'']"
    using v(4) by (auto split: if_splits)
  ultimately show ?thesis using v(1,2,3) r by blast
qed

theorem golden_set_scoring_witness:
  "redis_get (tasks sample_redis) 10 (''task:'' @ ''t-golden'') = Some (TaskDoc golden_task)
   \<and> td_golden_set golden_task
   \<and> map_sum id (\<lambda>r. sbr_quality_score (fst r))
        (submit_task_result no_json sample_redis 10 ''0123456789abcdef'' ''t-golden''
           (sample_submission (RespStr ''Blue'') 5000)) = Inr (py_float 1)
   \<and> map_sum id (\<lambda>r. sbr_quality_score (fst r))
        (submit_task_result no_json sample_redis 10 ''0123456789abcdef'' ''t-golden''
           (sample_submission (RespStr ''Red'') 5000)) = Inr (py_float (3 / 10))"
proof -
  have t: "redis_get (tasks sample_redis) 10 (''task:'' @ ''t-golden'') = Some (TaskDoc golden_task)"
    by (rule sample_tasks)
  have g: "td_golden_set golden_task" by (simp add: golden_task_def)
  have "map_sum id (\<lambda>r. sbr_quality_score (fst r))
        (submit_task_result no_json sample_redis 10 ''0123456789abcdef'' ''t-golden''
           (sample_submission (RespStr ''Blue'') 5000)) = Inr (py_float 1)"
    using golden_set_scoring[OF t g, of no_json "''0123456789abcdef''"
        "sample_submission (RespStr ''Blue'') 5000"]
    by (auto simp: golden_task_def sample_submission_def)
  moreover have "map_sum id (\<lambda>r. sbr_quality_score (fst r))
        (submit_task_result no_json sample_redis 10 ''0123456789abcdef'' ''t-golden''
           (sample_submission (RespStr ''Red'') 5000)) = Inr (py_float (3 / 10))"
    using golden_set_scoring[OF t g, of no_json "''0123456789abcdef''"
        "sample_submission (RespStr ''Red'') 5000"]
    by (auto simp: golden_task_def sample_submission_def)
  ultimately show ?thesis using t g by blast
qed

subsection \<open>Claim C4\<close>

text \<open>
  Claim C4 says that a consensus validation that took more than 30000 ms multiplies the
  base score 0.8 by 0.9, yielding 0.72. The score is a float: the product of the floats
  0.8 and 0.9 is \<open>6485183463413515 / 2 ^ 53\<close>, which Python prints as
  0.7200000000000001, and not the float 0.72, which is \<open>6485183463413514 / 2 ^ 53\<close>.
\<close>

theorem slow_response_score_is_not_072:
  "map_sum id (\<lambda>r. sbr_quality_score (fst r))
     (submit_task_result no_json sample_redis 10 ''0123456789abcdef'' ''t-consensus''
        (sample_submission (RespStr ''Red'') 40000))
     = Inr (float_mul (py_float (8 / 10)) (py_float (9 / 10)))
   \<and> float_mul (py_float (8 / 10)) (py_float (9 / 10)) \<noteq> py_float (72 / 100)"
proof -
  have t: "redis_get (tasks sample_redis) 10 (''task:'' @ ''t-consensus'') = Some (TaskDoc consensus_task)"
    by (rule sample_tasks)
  have c: "td_golden_set consensus_task = False" by (simp add: consensus_task_def)
  from submit_found[OF t, of no_json "''0123456789abcdef''" "sample_submission (RespStr ''Red'') 40000"]
    validate_found[OF t, of no_json "''0123456789abcdef''" "''sess_1''" "''pub_1''" "RespStr ''Red''" 40000
      "''vqa''" "''consensus''"]
  have "map_sum id (\<lambda>r. sbr_quality_score (fst r))
     (submit_task_result no_json sample_redis 10 ''0123456789abcdef'' ''t-consensus''
        (sample_submission (RespStr ''Red'') 40000))
     = Inr (float_mul (py_float (8 / 10)) (py_float (9 / 10)))"
    by (auto simp: c consensus_task_def sample_submission_def)
  moreover have "float_mul (py_float (8 / 10)) (py_float (9 / 10)) \<noteq> py_float (72 / 100)"
    by (simp only: one_ulp_above) simp
  ultimately show ?thesis by blast
qed

text \<open>
  Claim C4, amended. For a submission against an existing assignment that is not a
  golden-set task, validated with the method \<^verbatim>\<open>consensus\<close>: below 500 ms the score is
  the float product of 0.8 and 0.5, which is the float 0.4, with the issue
  \<^verbatim>\<open>suspiciously_fast_response\<close>; above 30000 ms it is the float product of 0.8 and
  0.9, which lies one unit in the last place (\<open>1 / 2 ^ 53\<close>) above the float 0.72, with the
  issue \<^verbatim>\<open>slow_response\<close>; from 500 ms to 30000 ms it is the float 0.8 with no
  issue. The confidence is \<^verbatim>\<open>medium\<close>, and the submission response carries the same
  score.
\<close>

theorem consensus_timing_penalties:
  assumes "redis_get (tasks redis) now (''task:'' @ task_id) = Some (TaskDoc td)"
    and "\<not> td_golden_set td"
  shows "\<exists>v redis1 res redis'.
      validate_label_quality loads redis now uuid_hex task_id (sub_session_id sub)
        (sub_publisher_id sub) (sub_response sub) (sub_time_spent_ms sub) (td_task_type td)
        ''consensus'' = Inr (v, redis1)
      \<and> submit_task_result loads redis now uuid_hex task_id sub = Inr (res, redis')
      \<and> sbr_quality_score res = vr_quality_score v
      \<and> vr_validation_method v = ''consensus''
      \<and> vr_confidence v = ''medium''
      \<and> (sub_time_spent_ms sub < 500
           \<longrightarrow> vr_quality_score v = float_mul (py_float (8 / 10)) (py_float (5 / 10))
               \<and> vr_quality_score v = py_float (4 / 10)
               \<and> vr_issues_detected v = [''suspiciously_fast_response''])
      \<and> (30000 < sub_time_spent_ms sub
           \<longrightarrow> vr_quality_score v = float_mul (py_float (8 / 10)) (py_float (9 / 10))
               \<and> vr_quality_score v = py_float (72 / 100) + 1 / 2 ^ 53
               \<and> vr_issues_detected v = [''slow_response''])
      \<and> (500 \<le> sub_time_spent_ms sub \<and> sub_time_spent_ms sub \<le> 30000
           \<longrightarrow> vr_quality_score v = py_float (8 / 10) \<and> vr_issues_detected v = [])"
proof -
  let ?ms = "sub_time_spent_ms sub"
  from validate_found[OF assms(1), of loads uuid_hex "sub_session_id sub" "sub_publisher_id sub"
      "sub_response sub" ?ms "td_task_type td" "''consensus''"]
  obtain v redis1 where v:
    "validate_label_quality loads redis now uuid_hex task_id (sub_session_id sub)
        (sub_publisher_id sub) (sub_response sub) ?ms (td_task_type td) ''consensus''
        = Inr (v, redis1)"
    "vr_validation_method v = ''consensus''" "vr_confidence v = ''medium''"
    "(vr_quality_score v, vr_issues_detected v) =
       (if ?ms < 500
        then (float_mul (py_float (8 / 10)) (py_float (5 / 10)), [''suspiciously_fast_response''])
        else if ?ms > 30000
        then (float_mul (py_float (8 / 10)) (py_float (9 / 10)), [''slow_response''])
        else (py_float (8 / 10), []))"
    by auto
  from submit_found[OF assms(1), of loads uuid_hex sub] v(1) assms(2)
  obtain res redis' where r:
    "submit_task_result loads redis now uuid_hex task_id sub = Inr (res, redis')"
    "sbr_quality_score res = vr_quality_score v"
    by auto
  have fast: "?ms < 500
           \<longrightarrow> vr_quality_score v = float_mul (py_float (8 / 10)) (py_float (5 / 10))
               \<and> vr_quality_score v = py_float (4 / 10)
               \<and> vr_issues_detected v = [''suspiciously_fast_response'']"
    using v(4) half_is_exact by (auto split: if_splits)
  have slow: "30000 < ?ms
           \<longrightarrow> vr_quality_score v = float_mul (py_float (8 / 10)) (py_float (9 / 10))
               \<and> vr_quality_score v = py_float (72 / 100) + 1 / 2 ^ 53
               \<and> vr_issues_detected v = [''slow_response'']"
    using v(4) one_ulp_above by (auto split: if_splits)
  have mid: "500 \<le> ?ms \<and> ?ms \<le> 30000
           \<longrightarrow> vr_quality_score v = py_float (8 / 10) \<and> vr_issues_detected v = []"
    using v(4) by (auto split: if_splits)
  show ?thesis using v(1,2,3) r fast slow mid by blast
qed

theorem consensus_timing_penalties_witness:
  "redis_get (tasks sample_redis) 10 (''task:'' @ ''t-consensus'') = Some (TaskDoc consensus_task)
   \<and> \<not> td_golden_set consensus_task
   \<and> map_sum id (\<lambda>r. sbr_quality_score (fst r))
        (submit_task_result no_json sample_redis 10 ''0123456789abcdef'' ''t-consensus''
           (sample_submission (RespStr ''Red'') 400)) = Inr (py_float (4 / 10))
   \<and> map_sum id (\<lambda>r. sbr_quality_score (fst r))
        (submit_task_result no_json sample_redis 10 ''0123456789abcdef'' ''t-consensus''
           (sample_submission (RespStr ''Red'') 40000)) = Inr (py_float (72 / 100) + 1 / 2 ^ 53)
   \<and> map_sum id (\<lambda>r. sbr_quality_score (fst r))
        (submit_task_result no_json sample_redis 10 ''0123456789abcdef'' ''t-consensus''
           (sample_submission (RespStr ''Red'') 5000)) = Inr (py_float (8 / 10))"
proof -
  have t: "redis_get (tasks sample_redis) 10 (''task:'' @ ''t-consensus'') = Some (TaskDoc consensus_task)"
    by (rule sample_tasks)
  have c: "\<not> td_golden_set consensus_task" by (simp add: consensus_task_def)
  have "map_sum id (\<lambda>r. sbr_quality_score (fst r))
        (submit_task_result no_json sample_redis 10 ''0123456789abcdef'' ''t-consensus''
           (sample_submission (RespStr ''Red'') 400)) = Inr (py_float (4 / 10))"
    using consensus_timing_penalties[OF t c, of no_json "''0123456789abcdef''"
        "sample_submission (RespStr ''Red'') 400"]
    by (auto simp: sample_submission_def)
  moreover have "map_sum id (\<lambda>r. sbr_quality_score (fst r))
        (submit_task_result no_json sample_redis 10 ''0123456789abcdef'' ''t-consensus''
           (sample_submission (RespStr ''Red'') 40000)) = Inr (py_float (72 / 100) + 1 / 2 ^ 53)"
    using consensus_timing_penalties[OF t c, of no_json "''0123456789abcdef''"
        "sample_submission (RespStr ''Red'') 40000"]
    by (auto simp: sample_submission_def)
  moreover have "map_sum id (\<lambda>r. sbr_quality_score (fst r))
        (submit_task_result no_json sample_redis 10 ''0123456789abcdef'' ''t-consensus''
           (sample_submission (RespStr ''Red'') 5000)) = Inr (py_float (8 / 10))"
    using consensus_timing_penalties[OF t c, of no_json "''0123456789abcdef''"
        "sample_submission (RespStr ''Red'') 5000"]
    by (auto simp: sample_submission_def)
  ultimately show ?thesis using t c by blast
qed

subsection \<open>Claim C5\<close>

text \<open>
  Claim C5: the reward duration is 7200 s for a score of at least 0.9, 5400 s for a
  score of at least 0.8 and below 0.9, 3600 s for a score of at least 0.7 and below
  0.8, and 1800 s below 0.7; the thresholds are the float literals of the source. So
  0.9 yields 7200, 0.89999 yields 5400 and 0.5 yields 1800. For an existing assignment
  \<^verbatim>\<open>submit_task_result\<close> returns a response that carries a \<^verbatim>\<open>content_access\<close>
  reward of the duration that belongs to its quality score.
\<close>

theorem reward_tiers:
  "(py_float (9 / 10) \<le> q \<longrightarrow> reward_duration q = 7200)
   \<and> (py_float (8 / 10) \<le> q \<and> q < py_float (9 / 10) \<longrightarrow> reward_duration q = 5400)
   \<and> (py_float (7 / 10) \<le> q \<and> q < py_float (8 / 10) \<longrightarrow> reward_duration q = 3600)
   \<and> (q < py_float (7 / 10) \<longrightarrow> reward_duration q = 1800)
   \<and> reward_duration (py_float (9 / 10)) = 7200
   \<and> reward_duration (py_float (89999 / 100000)) = 5400
   \<and> reward_duration (py_float (5 / 10)) = 1800
   \<and> (\<forall>loads redis now uuid_hex task_id sub td.
         redis_get (tasks redis) now (''task:'' @ task_id) = Some (TaskDoc td)
         \<longrightarrow> (\<exists>res redis'.
                submit_task_result loads redis now uuid_hex task_id sub = Inr (res, redis')
                \<and> sbr_reward res
                    = \<lparr>rw_type = ''content_access'',
                        rw_duration_seconds = Some (reward_duration (sbr_quality_score res)),
                        rw_points = None, rw_description = None\<rparr>))"
proof -
  have tiers: "(py_float (9 / 10) \<le> q \<longrightarrow> reward_duration q = 7200)
   \<and> (py_float (8 / 10) \<le> q \<and> q < py_float (9 / 10) \<longrightarrow> reward_duration q = 5400)
   \<and> (py_float (7 / 10) \<le> q \<and> q < py_float (8 / 10) \<longrightarrow> reward_duration q = 3600)
   \<and> (q < py_float (7 / 10) \<longrightarrow> reward_duration q = 1800)
   \<and> reward_duration (py_float (9 / 10)) = 7200
   \<and> reward_duration (py_float (89999 / 100000)) = 5400
   \<and> reward_duration (py_float (5 / 10)) = 1800"
    unfolding reward_duration_def float_literals by simp
  have "\<exists>res redis'.
          submit_task_result loads redis now uuid_hex task_id sub = Inr (res, redis')
          \<and> sbr_reward res
              = \<lparr>rw_type = ''content_access'',
                  rw_duration_seconds = Some (reward_duration (sbr_quality_score res)),
                  rw_points = None, rw_description = None\<rparr>"
    if "redis_get (tasks redis) now (''task:'' @ task_id) = Some (TaskDoc td)"
    for loads redis now uuid_hex task_id sub td
    using submit_found[OF that, of loads uuid_hex sub] by auto
  then show ?thesis using tiers by blast
qed

theorem reward_tiers_witness:
  "reward_duration (py_float 1) = 7200
   \<and> reward_duration (py_float (85 / 100)) = 5400
   \<and> reward_duration (py_float (8 / 10)) = 5400
   \<and> reward_duration (float_mul (py_float (8 / 10)) (py_float (9 / 10))) = 3600
   \<and> reward_duration (py_float (3 / 10)) = 1800
   \<and> map_sum id (\<lambda>r. rw_duration_seconds (sbr_reward (fst r)))
        (submit_task_result no_json sample_redis 10 ''0123456789abcdef'' ''t-golden''
           (sample_submission (RespStr ''Blue'') 5000)) = Inr (Some 7200)"
proof -
  have e: "py_float (85 / 100) = 7656119366529843 / 9007199254740992" by code_simp
  have a: "reward_duration (py_float 1) = 7200"
    using reward_tiers[of "py_float 1"] unfolding float_literals by simp
  have b: "reward_duration (py_float (85 / 100)) = 5400"
    using reward_tiers[of "py_float (85 / 100)"] unfolding float_literals e by simp
  have c: "reward_duration (py_float (8 / 10)) = 5400"
    using reward_tiers[of "py_float (8 / 10)"] unfolding float_literals by simp
  have d: "reward_duration (float_mul (py_float (8 / 10)) (py_float (9 / 10))) = 3600"
    using reward_tiers[of "float_mul (py_float (8 / 10)) (py_float (9 / 10))"]
    unfolding float_products unfolding float_literals by simp
  have f: "reward_duration (py_float (3 / 10)) = 1800"
    using reward_tiers[of "py_float (3 / 10)"] unfolding float_literals by simp
  have t: "redis_get (tasks sample_redis) 10 (''task:'' @ ''t-golden'') = Some (TaskDoc golden_task)"
    by (rule sample_tasks)
  have g: "td_golden_set golden_task" by (simp add: golden_task_def)
  let ?run = "submit_task_result no_json sample_redis 10 ''0123456789abcdef'' ''t-golden''
           (sample_submission (RespStr ''Blue'') 5000)"
  have q: "map_sum id (\<lambda>r. sbr_quality_score (fst r)) ?run = Inr (py_float 1)"
    using submit_found[OF t, of no_json "''0123456789abcdef''" "sample_submission (RespStr ''Blue'') 5000"]
      validate_found[OF t, of no_json "''0123456789abcdef''" "''sess_1''" "''pub_1''" "RespStr ''Blue''" 5000
        "''vqa''" "''golden_set''"]
    by (auto simp: golden_task_def sample_submission_def)
  from reward_tiers[of 0] t
  obtain res redis' where r: "?run = Inr (res, redis')"
    "sbr_reward res = \<lparr>rw_type = ''content_access'',
        rw_duration_seconds = Some (reward_duration (sbr_quality_score res)),
        rw_points = None, rw_description = None\<rparr>"
    by blast
  have "sbr_quality_score res = py_float 1" using q r(1) by simp
  then have h: "map_sum id (\<lambda>r. rw_duration_seconds (sbr_reward (fst r))) ?run = Inr (Some 7200)"
    using r a by simp
  show ?thesis using a b c d f h by blast
qed

subsection \<open>Claim C6\<close>

text \<open>
  With no value under \<^verbatim>\<open>task:<task_id>\<close>, because none was written or because it has
  expired, \<^verbatim>\<open>submit_task_result\<close> returns \<^verbatim>\<open>success = False\<close> with a reward of type
  \<^verbatim>\<open>none\<close> and no duration and leaves the store unchanged, and the validator answers
  with the score 0.2, the issue \<^verbatim>\<open>task_not_found\<close>, the method \<^verbatim>\<open>unknown\<close> and the
  confidence \<^verbatim>\<open>low\<close>.
\<close>

lemma no_value_short_circuits:
  assumes "redis_get (tasks redis) now (''task:'' @ task_id) = None"
  shows "submit_task_result loads redis now uuid_hex task_id sub
           = Inr (\<lparr>sbr_success = False,
                    sbr_reward = \<lparr>rw_type = ''none'', rw_duration_seconds = None,
                                   rw_points = None, rw_description = None\<rparr>,
                    sbr_quality_score = py_float 0,
                    sbr_next_task_available = True\<rparr>, redis)
       \<and> validate_label_quality loads redis now uuid_hex task_id session_id publisher_id response
            time_spent_ms task_type validation_type
           = Inr (\<lparr>vr_validation_id = ''val_'' @ take 10 uuid_hex,
                    vr_quality_score = py_float (2 / 10),
                    vr_validation_method = ''unknown'',
                    vr_issues_detected = [''task_not_found''],
                    vr_confidence = ''low'',
                    vr_feedback = ''Task not found or expired''\<rparr>, redis)"
proof -
  have n: "not_task_json (redis_get (tasks redis) now (''task:'' @ task_id))"
    using assms by (simp add: not_task_json_def)
  show ?thesis using submit_missing[OF n] validate_missing[OF n] by simp
qed

lemma no_value_on_sample_store:
  "map_sum id (\<lambda>r. sbr_success (fst r))
     (submit_task_result no_json sample_redis 10 ''0123456789abcdef'' ''t-unknown''
        (sample_submission (RespStr ''Blue'') 5000)) = Inr False"
  "map_sum id (\<lambda>r. rw_type (sbr_reward (fst r)))
     (submit_task_result no_json sample_redis 4000 ''0123456789abcdef'' ''t-golden''
        (sample_submission (RespStr ''Blue'') 5000)) = Inr ''none''"
  "map_sum id (\<lambda>r. vr_issues_detected (fst r))
     (validate_label_quality no_json sample_redis 4000 ''0123456789abcdef'' ''t-golden''
        ''sess_1'' ''pub_1'' (RespStr ''Blue'') 5000 ''vqa'' ''golden_set'') = Inr [''task_not_found'']"
  using no_value_short_circuits[OF sample_tasks(3)] no_value_short_circuits[OF sample_tasks(4)]
  by simp_all

text \<open>
  Claim C6 says that every submission whose task assignment record is missing or
  expired is answered with \<^verbatim>\<open>success = False\<close> and a reward of type \<^verbatim>\<open>none\<close>, and
  that the validator's fallback is the score 0.2 with the issue \<^verbatim>\<open>task_not_found\<close> and
  the method \<^verbatim>\<open>unknown\<close>. The services look the record up under \<^verbatim>\<open>task:<task_id>\<close>,
  and the selector writes its lease under \<^verbatim>\<open>task:assigned:<uuid>\<close>. For the task id
  \<^verbatim>\<open>assigned:<uuid>\<close> of a task handed out at most 300 seconds ago no task record was
  ever written, yet the lookup finds the lease, whose text is the session id:
  \<^verbatim>\<open>json.loads\<close> raises \<^verbatim>\<open>JSONDecodeError\<close> in \<^verbatim>\<open>submit_task_result\<close> and in
  \<^verbatim>\<open>validate_label_quality\<close>, and neither answers. Here the selector hands out the
  task \<^verbatim>\<open>2f1e4fc0-81fd-4f4f-9d3a-6a2c5e1b7a10\<close> to the session \<^verbatim>\<open>sess_1\<close> at time 10,
  and the submission arrives at time 20.
\<close>

theorem lease_is_read_as_task_record:
  "map_option fst
     (tasks (snd (get_next_task sample_redis 10 ''2f1e4fc0-81fd-4f4f-9d3a-6a2c5e1b7a10''
                    ''sess_1'' ''pub_1'' None None None))
        ''task:assigned:2f1e4fc0-81fd-4f4f-9d3a-6a2c5e1b7a10'') = Some (Lease ''sess_1'')
   \<and> submit_task_result loads
        (snd (get_next_task sample_redis 10 ''2f1e4fc0-81fd-4f4f-9d3a-6a2c5e1b7a10''
                ''sess_1'' ''pub_1'' None None None))
        20 ''0123456789abcdef'' ''assigned:2f1e4fc0-81fd-4f4f-9d3a-6a2c5e1b7a10''
        (sample_submission (RespStr ''Blue'') 5000) = Inl JSONDecodeError
   \<and> validate_label_quality loads
        (snd (get_next_task sample_redis 10 ''2f1e4fc0-81fd-4f4f-9d3a-6a2c5e1b7a10''
                ''sess_1'' ''pub_1'' None None None))
        20 ''0123456789abcdef'' ''assigned:2f1e4fc0-81fd-4f4f-9d3a-6a2c5e1b7a10''
        ''sess_1'' ''pub_1'' (RespStr ''Blue'') 5000 ''vqa'' ''consensus'' = Inl JSONDecodeError"
proof -
  let ?u = "''2f1e4fc0-81fd-4f4f-9d3a-6a2c5e1b7a10''"
  let ?r = "snd (get_next_task sample_redis 10 ?u ''sess_1'' ''pub_1'' None None None)"
  have p: "redis_get (profiles sample_redis) 10 (''user:profile:'' @ ''pub_1'' @ '':'' @ ''sess_1'')
     = Some \<lparr>up_language = ''en'', up_expertise_level = ''beginner'',
              up_task_preferences = [''vqa''], up_max_complexity = 2\<rparr>"
    by (rule sample_profile)
  have s: "''sess_1'' \<noteq> []" "\<not> can_start_json ''sess_1''"
    using session_id_is_no_json[of "''1''"] by simp_all
  have t: "(10::rat) \<le> 20" "(20::rat) \<le> 10 + 300" by simp_all
  from get_next_task_found[OF p, of ?u None None None]
  have "tasks ?r (''task:'' @ ''assigned:'' @ ?u) = Some (Lease ''sess_1'', Some (10 + 300))"
    by auto
  then have a: "map_option fst (tasks ?r ''task:assigned:2f1e4fc0-81fd-4f4f-9d3a-6a2c5e1b7a10'')
      = Some (Lease ''sess_1'')"
    by simp
  have b: "submit_task_result loads ?r 20 ''0123456789abcdef'' (''assigned:'' @ ?u)
        (sample_submission (RespStr ''Blue'') 5000) = Inl JSONDecodeError"
    by (rule lease_read_as_task_record(1)[OF p s t])
  have c: "validate_label_quality loads ?r 20 ''0123456789abcdef'' (''assigned:'' @ ?u)
        ''sess_1'' ''pub_1'' (RespStr ''Blue'') 5000 ''vqa'' ''consensus'' = Inl JSONDecodeError"
    by (rule lease_read_as_task_record(2)[OF p s t])
  show ?thesis using a b c by simp
qed

theorem lease_is_read_as_task_record_witness:
  "submit_task_result no_json
        (snd (get_next_task sample_redis 10 ''2f1e4fc0-81fd-4f4f-9d3a-6a2c5e1b7a10''
                ''sess_1'' ''pub_1'' None None None))
        20 ''0123456789abcdef'' ''assigned:2f1e4fc0-81fd-4f4f-9d3a-6a2c5e1b7a10''
        (sample_submission (RespStr ''Blue'') 5000) = Inl JSONDecodeError"
  using lease_is_read_as_task_record[of no_json] by simp

subsection \<open>Claim C9\<close>

text \<open>
  Claim C9: the selector returns no task exactly when the profile record is missing;
  when the record exists it returns a task, whatever the language and category
  filters, and the task's complexity level is the minimum of the profile's
  \<^verbatim>\<open>max_complexity\<close> and 3.
\<close>

theorem selector_returns_task_iff_profile:
  "(fst (get_next_task redis now uuid4 session_id publisher_id language website_category previous_task_id)
      = None)
     = (redis_get (profiles redis) now (''user:profile:'' @ publisher_id @ '':'' @ session_id) = None)
   \<and> (\<forall>p. redis_get (profiles redis) now (''user:profile:'' @ publisher_id @ '':'' @ session_id) = Some p
        \<longrightarrow> (\<exists>task redis'.
              get_next_task redis now uuid4 session_id publisher_id language website_category
                previous_task_id = (Some task, redis')
              \<and> tr_complexity_level task = min (up_max_complexity p) 3))"
proof (cases "redis_get (profiles redis) now (''user:profile:'' @ publisher_id @ '':'' @ session_id)")
  case None
  then show ?thesis
    using get_next_task_missing[OF None, of uuid4 language website_category previous_task_id] by simp
next
  case (Some p)
  from get_next_task_found[OF Some, of uuid4 language website_category previous_task_id]
  obtain task redis' where
    "get_next_task redis now uuid4 session_id publisher_id language website_category
       previous_task_id = (Some task, redis')"
    "tr_complexity_level task = min (up_max_complexity p) 3"
    by blast
  then show ?thesis using Some by simp
qed

theorem selector_returns_task_iff_profile_witness:
  "map_option tr_complexity_level
     (fst (get_next_task sample_redis 10 ''2f1e4fc0-81fd-4f4f-9d3a-6a2c5e1b7a10'' ''sess_1'' ''pub_1''
        (Some ''fr'') (Some ''news'') None)) = Some 2
   \<and> fst (get_next_task sample_redis 10 ''2f1e4fc0-81fd-4f4f-9d3a-6a2c5e1b7a10'' ''sess_2'' ''pub_1''
        (Some ''fr'') (Some ''news'') None) = None"
  using sample_profile(1,3)
    selector_returns_task_iff_profile[of sample_redis 10 "''2f1e4fc0-81fd-4f4f-9d3a-6a2c5e1b7a10''"
      "''sess_1''" "''pub_1''" "Some ''fr''" "Some ''news''" None]
    selector_returns_task_iff_profile[of sample_redis 10 "''2f1e4fc0-81fd-4f4f-9d3a-6a2c5e1b7a10''"
      "''sess_2''" "''pub_1''" "Some ''fr''" "Some ''news''" None]
  by auto

subsection \<open>Claim C10\<close>

text \<open>
  Claim C10: for a count of at least 1, \<^verbatim>\<open>get_task_batch\<close> returns exactly that many
  tasks, so never an empty list, each with complexity level 2 for the filter
  \<^verbatim>\<open>medium\<close>, 3 for \<^verbatim>\<open>high\<close> and 1 for anything else; and the route
  \<^verbatim>\<open>GET /batch\<close>, which admits counts from 1 to 100 only, never answers 204.
\<close>

theorem batch_has_count_tasks:
  assumes "1 \<le> count"
  shows "length (tb_tasks (fst (get_task_batch redis now uuids publisher_id count language category
            complexity))) = nat count
       \<and> tb_tasks (fst (get_task_batch redis now uuids publisher_id count language category
            complexity)) \<noteq> []
       \<and> (\<forall>t\<in>set (tb_tasks (fst (get_task_batch redis now uuids publisher_id count language category
               complexity))).
            ts_complexity_level t
              = (if complexity = Some ''medium'' then 2
                 else if complexity = Some ''high'' then 3 else 1))
       \<and> (\<forall>auth_publisher_id count_param message.
            fst (get_tasks_batch redis now uuids auth_publisher_id publisher_id count_param language
                   category complexity) \<noteq> Inl (HTTP_204 message))"
proof -
  let ?b = "tb_tasks (fst (get_task_batch redis now uuids publisher_id count language category complexity))"
  have len: "length ?b = nat count" by (simp add: batch_tasks)
  then have ne: "?b \<noteq> []" using assms by auto
  have lvl: "\<forall>t\<in>set ?b. ts_complexity_level t
              = (if complexity = Some ''medium'' then 2
                 else if complexity = Some ''high'' then 3 else 1)"
    by (auto simp: batch_tasks)
  have route: "fst (get_tasks_batch redis now uuids auth_publisher_id publisher_id count_param language
                   category complexity) \<noteq> Inl (HTTP_204 message)"
    for auth_publisher_id count_param message
  proof -
    let ?c = "case count_param of None \<Rightarrow> 10 | Some c \<Rightarrow> c"
    have "length (tb_tasks (fst (get_task_batch redis now uuids publisher_id ?c language category
            complexity))) = nat ?c"
      by (simp add: batch_tasks)
    then have "1 \<le> ?c \<Longrightarrow> tb_tasks (fst (get_task_batch redis now uuids publisher_id ?c language
            category complexity)) \<noteq> []"
      by auto
    then show ?thesis
      by (auto simp: get_tasks_batch_def Let_def split: prod.splits option.splits)
  qed
  show ?thesis using len ne lvl route by blast
qed

theorem batch_has_count_tasks_witness:
  "(1::int) \<le> 3
   \<and> length (tb_tasks (fst (get_task_batch sample_redis 10 (\<lambda>i. ''u'' @ str_nat i)
        ''pub_1'' 3 None None (Some ''high'')))) = 3
   \<and> ts_complexity_level (tb_tasks (fst (get_task_batch sample_redis 10 (\<lambda>i. ''u'' @ str_nat i)
        ''pub_1'' 3 None None (Some ''high''))) ! 2) = 3
   \<and> fst (get_tasks_batch sample_redis 10 (\<lambda>i. ''u'' @ str_nat i) ''pub_1'' ''pub_1'' (Some 3)
        None None (Some ''high'')) \<noteq> Inl (HTTP_204 ''no_tasks_available'')"
proof -
  let ?b = "tb_tasks (fst (get_task_batch sample_redis 10 (\<lambda>i. ''u'' @ str_nat i)
        ''pub_1'' 3 None None (Some ''high'')))"
  have a: "(1::int) \<le> 3" by simp
  note t = batch_has_count_tasks[OF a, of sample_redis 10 "\<lambda>i. ''u'' @ str_nat i" "''pub_1''"
        None None "Some ''high''"]
  have len: "length ?b = 3" using t by simp
  then have "?b ! 2 \<in> set ?b" by (intro nth_mem) simp
  then have "ts_complexity_level (?b ! 2) = 3" using t by simp
  then show ?thesis using a len t by simp
qed

end
